theory Spec2Isabelle
  imports Complex_Main
begin

section \<open>Values, errors and the language runtime\<close>

text \<open>
  The SDK is TypeScript; at run time its declared types are erased, so whatever the
  language model or a remote service sends back travels through the program as an
  arbitrary JavaScript value. \<open>jsval\<close> is the value space of a JSON document plus
  \<open>undefined\<close>. Numbers are idealised as reals (rounding and overflow of IEEE doubles
  are not part of the model); an object is an association list read with \<open>map_of\<close>.
\<close>

datatype jsval =
    JUndefined
  | JNull
  | JBool bool
  | JNum real
  | JStr string
  | JArr "jsval list"
  | JObj "(string \<times> jsval) list"

text \<open>
  \<open>Error msg\<close> is \<open>new Error(msg)\<close> thrown by the SDK itself; \<open>TypeError\<close> and
  \<open>SyntaxError\<close> are raised by the language (\<open>JSON.parse\<close>, a property read on
  \<open>null\<close>); \<open>Rejected\<close> is a failure reported by a remote service or a library.
\<close>

datatype error = Error string | TypeError | SyntaxError | Rejected string

definition res_bind :: "error + 'a \<Rightarrow> ('a \<Rightarrow> error + 'b) \<Rightarrow> error + 'b" where
  "res_bind r f = (case r of Inl e \<Rightarrow> Inl e | Inr x \<Rightarrow> f x)"

definition res_catch :: "error + 'a \<Rightarrow> (error \<Rightarrow> error + 'a) \<Rightarrow> error + 'a" where
  "res_catch r h = (case r of Inl e \<Rightarrow> h e | Inr x \<Rightarrow> Inr x)"

text \<open>
  A property read \<open>v.k\<close>. It throws on \<open>null\<close> and \<open>undefined\<close> and yields
  \<open>undefined\<close> for a missing key. None of the property names the program reads is
  inherited from a prototype, so a primitive or an array has none of them.
\<close>

fun get_prop :: "jsval \<Rightarrow> string \<Rightarrow> error + jsval" where
  "get_prop JUndefined k = Inl TypeError"
| "get_prop JNull k = Inl TypeError"
| "get_prop (JObj fs) k = Inr (case map_of fs k of None \<Rightarrow> JUndefined | Some v \<Rightarrow> v)"
| "get_prop v k = Inr JUndefined"

text \<open>The element read \<open>v[0]\<close>.\<close>

fun get_first :: "jsval \<Rightarrow> error + jsval" where
  "get_first JUndefined = Inl TypeError"
| "get_first JNull = Inl TypeError"
| "get_first (JArr xs) = Inr (case xs of [] \<Rightarrow> JUndefined | x # _ \<Rightarrow> x)"
| "get_first (JStr s) = Inr (case s of [] \<Rightarrow> JUndefined | c # _ \<Rightarrow> JStr [c])"
| "get_first (JObj fs) = Inr (case map_of fs ''0'' of None \<Rightarrow> JUndefined | Some v \<Rightarrow> v)"
| "get_first v = Inr JUndefined"

text \<open>The values a \<open>for ... of\<close> loop runs over; anything not iterable throws.\<close>

fun iterate :: "jsval \<Rightarrow> error + jsval list" where
  "iterate (JArr xs) = Inr xs"
| "iterate (JStr s) = Inr (map (\<lambda>c. JStr [c]) s)"
| "iterate v = Inl TypeError"

text \<open>Truthiness, as tested by \<open>if (v)\<close>, \<open>!v\<close>, \<open>a && b\<close> and \<open>a || b\<close>.\<close>

fun ToBoolean :: "jsval \<Rightarrow> bool" where
  "ToBoolean JUndefined = False"
| "ToBoolean JNull = False"
| "ToBoolean (JBool b) = b"
| "ToBoolean (JNum x) = (x \<noteq> 0)"
| "ToBoolean (JStr s) = (s \<noteq> [])"
| "ToBoolean (JArr xs) = True"
| "ToBoolean (JObj fs) = True"

definition opt_str :: "string option \<Rightarrow> jsval" where
  "opt_str v = (case v of None \<Rightarrow> JUndefined | Some s \<Rightarrow> JStr s)"

text \<open>\<open>a || b\<close> on an optional string: the empty string is falsy too.\<close>

definition or_else :: "string option \<Rightarrow> string \<Rightarrow> string" where
  "or_else v d = (case v of None \<Rightarrow> d | Some s \<Rightarrow> if s = [] then d else s)"

subsection \<open>Text that is built but never inspected\<close>

text \<open>
  A template literal is kept as its pieces: the fixed text and, unrendered, each
  interpolated value. \<open>J v\<close> is \<open>JSON.stringify(v)\<close>. The pictographs that open the
  console messages of the source are left out of the fixed text, and the arrow of the
  buyback message is written \<open>->\<close>.
\<close>

datatype piece = S string | V jsval | J jsval

type_synonym tmpl = "piece list"

record message =
  role :: string
  content :: tmpl

datatype field = FText tmpl | FVal jsval | FMessages "message list"

datatype body = NoBody | JsonObject "(string \<times> field) list" | JsonValue jsval

record request =
  url :: tmpl
  http_method :: string
  headers :: "(string \<times> tmpl) list"
  req_body :: body

subsection \<open>Wire types of the blockchain facade\<close>

datatype side = Buy | Sell

record TradeParams =
  tp_tokenMint :: string
  tp_amount :: jsval
  tp_side :: side
  tp_slippage :: "real option"

record BuybackParams =
  bp_tokenMint :: string
  solAmount :: real
  bp_burnPercentage :: real

record TokenInfo =
  ti_mint :: string
  ti_name :: string
  ti_symbol :: string
  ti_decimals :: jsval
  ti_supply :: jsval

text \<open>
  A transaction is the list of its instructions and of its signers. The source never
  appends an instruction to a transaction it builds.
\<close>

record transaction =
  instructions :: "string list"
  signers :: "string option list"
  skipPreflight :: "bool option"

datatype rpc_call =
    GetParsedAccountInfo string
  | GetSignaturesForAddress string nat
  | SendTransaction transaction
  | ConfirmTransaction string

datatype sdk_call =
    GetTokenInfo string
  | Trade TradeParams
  | BuybackAndBurn BuybackParams
  | AddLiquidityFromFees string jsval
  | CollectFees
  | GetTokenPrice string
  | GetVolume24h string

text \<open>
  Everything observable a run does, in order: console output, requests sent over HTTP
  and to the RPC node, and the entry into each public method of the blockchain facade
  (so that "the driver called \<open>sdk.collectFees\<close>" is a fact about the trace).
\<close>

datatype event =
    ConsoleLog tmpl
  | ConsoleError string error
  | SdkCall sdk_call
  | Fetch request
  | Rpc rpc_call

subsection \<open>The world outside the repository\<close>

text \<open>
  Library and remote behaviour the repository relies on but does not define. An answer
  of a remote service is indexed by the position of the request in the trace, so two
  requests of one run may be answered differently.
  \<^item> \<open>JSON_parse\<close>: \<open>JSON.parse\<close>, \<open>Inl\<close> when the text is not valid JSON;
  \<^item> \<open>StringToNumber\<close>: the numeric value of a string, \<open>None\<close> for \<open>NaN\<close>;
  \<^item> \<open>ToString_other\<close>: the string a value that is not a string converts to;
  \<^item> \<open>js_times\<close>, \<open>js_plus\<close>, \<open>js_divide\<close>: the arithmetic operators on arbitrary values;
  \<^item> \<open>PublicKey_valid\<close>: whether \<open>new PublicKey(s)\<close> accepts the text;
  \<^item> \<open>fetch\<close>: the body of the HTTP response, or the rejection;
  \<^item> the four RPC methods of \<open>Connection\<close>; \<open>Date_now\<close>.
\<close>

record world =
  JSON_parse :: "string \<Rightarrow> error + jsval"
  StringToNumber :: "string \<Rightarrow> real option"
  ToString_other :: "jsval \<Rightarrow> string"
  js_times :: "jsval \<Rightarrow> jsval \<Rightarrow> jsval"
  js_plus :: "jsval \<Rightarrow> jsval \<Rightarrow> jsval"
  js_divide :: "jsval \<Rightarrow> jsval \<Rightarrow> jsval"
  PublicKey_valid :: "string \<Rightarrow> bool"
  fetch :: "nat \<Rightarrow> request \<Rightarrow> error + string"
  rpc_getParsedAccountInfo :: "nat \<Rightarrow> string \<Rightarrow> error + jsval"
  rpc_getSignaturesForAddress :: "nat \<Rightarrow> string \<Rightarrow> nat \<Rightarrow> error + nat"
  rpc_sendTransaction :: "nat \<Rightarrow> transaction \<Rightarrow> error + string"
  rpc_confirmTransaction :: "nat \<Rightarrow> string \<Rightarrow> error + unit"
  Date_now :: "nat \<Rightarrow> real"

definition ToString :: "world \<Rightarrow> jsval \<Rightarrow> string" where
  "ToString w v = (case v of JStr s \<Rightarrow> s | _ \<Rightarrow> ToString_other w v)"

text \<open>Numeric coercion; \<open>None\<close> is \<open>NaN\<close>.\<close>

definition ToNumber :: "world \<Rightarrow> jsval \<Rightarrow> real option" where
  "ToNumber w v =
     (case v of
        JUndefined \<Rightarrow> None
      | JNull \<Rightarrow> Some 0
      | JBool b \<Rightarrow> Some (if b then 1 else 0)
      | JNum x \<Rightarrow> Some x
      | JStr s \<Rightarrow> StringToNumber w s
      | _ \<Rightarrow> StringToNumber w (ToString w v))"

text \<open>\<open>v > c\<close> against a number literal: false whenever \<open>v\<close> coerces to \<open>NaN\<close>.\<close>

definition js_gt :: "world \<Rightarrow> jsval \<Rightarrow> real \<Rightarrow> bool" where
  "js_gt w v c = (case ToNumber w v of None \<Rightarrow> False | Some x \<Rightarrow> c < x)"

definition PublicKey_new :: "world \<Rightarrow> string \<Rightarrow> error + string" where
  "PublicKey_new w s =
     (if PublicKey_valid w s then Inr s else Inl (Rejected ''Invalid public key input''))"

section \<open>Objects of the SDK and the state of a run\<close>

record LLMConfig =
  provider :: string
  apiKey :: "string option"
  model :: "string option"
  baseUrl :: "string option"
  systemPrompt :: "string option"

record LLMResponse =
  action :: jsval
  amount :: jsval
  reasoning :: jsval
  confidence :: jsval

record LLMConnector =
  llm_config :: LLMConfig
  conversationHistory :: "message list"

record MayhemSDK =
  wallet :: "string option"
  mayhemProgram :: string
  controllerProgram :: "string option"

record TradingConfig =
  tokenMint :: string
  strategy :: string
  maxRisk :: real
  stopLoss :: "real option"
  takeProfit :: "real option"

record BuybackConfig =
  enabled :: bool
  triggerPrice :: "real option"
  burnPercentage :: real
  lpPercentage :: "real option"

record TradingAgent =
  isRunning :: bool
  config :: "TradingConfig option"
  buybackConfig :: "BuybackConfig option"
  checkInterval :: "nat option"

record MarketingConfig =
  totalBudget :: real
  platforms :: "string list"
  minROI :: real
  rebalanceInterval :: real

record MarketingAgent =
  apiUrl :: string
  mk_config :: "MarketingConfig option"
  mk_isRunning :: bool
  monitorInterval :: "nat option"

record MarketData =
  md_symbol :: string
  price :: real
  volume24h :: real
  priceChange24h :: real
  marketCap :: jsval
  holders :: real
  recentTxs :: "jsval list"

record PlatformMetrics =
  pm_platform :: jsval
  pm_engagement :: jsval
  pm_reach :: jsval
  pm_activeUsers :: jsval
  pm_growthRate :: jsval
  pm_avgResponseTime :: jsval
  pm_costPerEngagement :: jsval

record Metrics =
  twitter :: PlatformMetrics
  discord :: PlatformMetrics
  telegram :: PlatformMetrics

text \<open>
  The callbacks the two drivers hand to \<open>setInterval\<close>. The event loop keeps the
  active timers as (handle, callback, period in milliseconds).
\<close>

datatype callback = TradingTick | MarketingTick

record state =
  sdk :: MayhemSDK
  llm :: LLMConnector
  agent :: TradingAgent
  marketing :: MarketingAgent
  timers :: "(nat \<times> callback \<times> real) list"
  timer_seq :: nat
  trace :: "event list"

subsection \<open>Effects: a state and exception monad, written out\<close>

text \<open>
  An \<open>async\<close> method is a function from the state to its outcome (\<open>Inl\<close> a thrown
  error or rejected promise, \<open>Inr\<close> the value) and the state it leaves behind.
  \<open>await\<close> is sequencing: runs are modelled one call at a time.
\<close>

type_synonym 'a io = "state \<Rightarrow> (error + 'a) \<times> state"

definition io_return :: "'a \<Rightarrow> 'a io" where
  "io_return x = (\<lambda>s. (Inr x, s))"

definition io_throw :: "error \<Rightarrow> 'a io" where
  "io_throw e = (\<lambda>s. (Inl e, s))"

definition io_bind :: "'a io \<Rightarrow> ('a \<Rightarrow> 'b io) \<Rightarrow> 'b io" where
  "io_bind m f = (\<lambda>s. case m s of (Inl e, s') \<Rightarrow> (Inl e, s') | (Inr x, s') \<Rightarrow> f x s')"

definition io_then :: "'a io \<Rightarrow> 'b io \<Rightarrow> 'b io" where
  "io_then m n = io_bind m (\<lambda>_. n)"

definition io_catch :: "'a io \<Rightarrow> (error \<Rightarrow> 'a io) \<Rightarrow> 'a io" where
  "io_catch m h = (\<lambda>s. case m s of (Inl e, s') \<Rightarrow> h e s' | (Inr x, s') \<Rightarrow> (Inr x, s'))"

definition io_get :: "(state \<Rightarrow> 'a) \<Rightarrow> 'a io" where
  "io_get f = (\<lambda>s. (Inr (f s), s))"

definition io_modify :: "(state \<Rightarrow> state) \<Rightarrow> unit io" where
  "io_modify f = (\<lambda>s. (Inr (), f s))"

definition io_lift :: "error + 'a \<Rightarrow> 'a io" where
  "io_lift r = (\<lambda>s. (r, s))"

definition emit :: "event \<Rightarrow> unit io" where
  "emit ev = io_modify (\<lambda>s. s\<lparr>trace := trace s @ [ev]\<rparr>)"

text \<open>A request to the outside: recorded in the trace, answered by the world.\<close>

definition extern :: "event \<Rightarrow> (nat \<Rightarrow> error + 'a) \<Rightarrow> 'a io" where
  "extern ev answer = (\<lambda>s. (answer (length (trace s)), s\<lparr>trace := trace s @ [ev]\<rparr>))"

fun io_forEach :: "('a \<Rightarrow> unit io) \<Rightarrow> 'a list \<Rightarrow> unit io" where
  "io_forEach f [] = io_return ()"
| "io_forEach f (x # xs) = io_then (f x) (io_forEach f xs)"

definition setInterval :: "callback \<Rightarrow> real \<Rightarrow> nat io" where
  "setInterval cb ms =
     (\<lambda>s. (Inr (timer_seq s),
            s\<lparr>timers := timers s @ [(timer_seq s, cb, ms)], timer_seq := Suc (timer_seq s)\<rparr>))"

definition clearInterval :: "nat \<Rightarrow> unit io" where
  "clearInterval h = io_modify (\<lambda>s. s\<lparr>timers := filter (\<lambda>t. fst t \<noteq> h) (timers s)\<rparr>)"

definition http :: "world \<Rightarrow> request \<Rightarrow> string io" where
  "http w req = extern (Fetch req) (\<lambda>t. fetch w t req)"

section \<open>Blockchain facade: \<open>MayhemSDK\<close>\<close>

definition getTokenInfo :: "world \<Rightarrow> string \<Rightarrow> TokenInfo io" where
  "getTokenInfo w mintAddress =
     io_then (emit (SdkCall (GetTokenInfo mintAddress)))
    (io_bind (io_lift (PublicKey_new w mintAddress)) (\<lambda>mint.
     io_bind (extern (Rpc (GetParsedAccountInfo mint))
                (\<lambda>t. rpc_getParsedAccountInfo w t mint)) (\<lambda>mintInfo_value.
     if \<not> ToBoolean mintInfo_value then io_throw (Error ''Token not found'')
     else
       io_bind (io_lift (get_prop mintInfo_value ''data'')) (\<lambda>data.
       io_bind (io_lift (res_bind (get_prop data ''parsed'') (\<lambda>parsed.
                         res_bind (get_prop parsed ''info'') (\<lambda>info.
                         get_prop info ''decimals'')))) (\<lambda>dec.
       io_bind (io_lift (res_bind (get_prop data ''parsed'') (\<lambda>parsed.
                         res_bind (get_prop parsed ''info'') (\<lambda>info.
                         get_prop info ''supply'')))) (\<lambda>sup.
       io_return \<lparr>ti_mint = mint, ti_name = ''Token Name'', ti_symbol = ''TKN'',
                  ti_decimals = dec, ti_supply = sup\<rparr>))))))"

definition toUpperCase_side :: "side \<Rightarrow> string" where
  "toUpperCase_side sd = (case sd of Buy \<Rightarrow> ''BUY'' | Sell \<Rightarrow> ''SELL'')"

definition trade :: "world \<Rightarrow> TradeParams \<Rightarrow> string io" where
  "trade w params =
     io_then (emit (SdkCall (Trade params)))
    (io_bind (io_get (\<lambda>s. wallet (sdk s))) (\<lambda>wl.
     case wl of
       None \<Rightarrow> io_throw (Error ''Wallet not initialized'')
     | Some key \<Rightarrow>
         io_then (emit (ConsoleLog [S (toUpperCase_side (tp_side params)), S '': '',
                                    V (tp_amount params), S '' tokens'']))
        (let tx = \<lparr>instructions = [], signers = [Some key], skipPreflight = Some False\<rparr> in
         io_bind (extern (Rpc (SendTransaction tx)) (\<lambda>t. rpc_sendTransaction w t tx))
           (\<lambda>signature.
         io_then (extern (Rpc (ConfirmTransaction signature))
                    (\<lambda>t. rpc_confirmTransaction w t signature))
        (io_then (emit (ConsoleLog [S ''Trade executed:'', V (JStr signature)]))
        (io_return signature))))))"

definition buybackAndBurn :: "world \<Rightarrow> BuybackParams \<Rightarrow> string io" where
  "buybackAndBurn w params =
     io_then (emit (SdkCall (BuybackAndBurn params)))
    (io_bind (io_get sdk) (\<lambda>this.
     if wallet this = None then io_throw (Error ''Wallet not initialized'')
     else if controllerProgram this = None
       then io_throw (Error ''Controller program not configured'')
     else
       io_then (emit (ConsoleLog [S ''Buyback: '', V (JNum (solAmount params)), S '' SOL -> '',
                                  V (JNum (bp_burnPercentage params)), S ''% burn'']))
      (io_bind (trade w \<lparr>tp_tokenMint = bp_tokenMint params,
                          tp_amount = JNum (solAmount params),
                          tp_side = Buy, tp_slippage = None\<rparr>) (\<lambda>buySignature.
       io_then (if 0 < bp_burnPercentage params
                then emit (ConsoleLog [S ''Burning '', V (JNum (bp_burnPercentage params)),
                                       S ''% of bought tokens''])
                else io_return ())
      (io_return buySignature)))))"

definition addLiquidityFromFees :: "world \<Rightarrow> string \<Rightarrow> jsval \<Rightarrow> string io" where
  "addLiquidityFromFees w mint feeAmount =
     io_then (emit (SdkCall (AddLiquidityFromFees mint feeAmount)))
    (io_bind (io_get sdk) (\<lambda>this.
     if controllerProgram this = None
       then io_throw (Error ''Controller program not configured'')
     else
       io_then (emit (ConsoleLog [S ''Adding '', V feeAmount, S '' to LP'']))
      (let tx = \<lparr>instructions = [], signers = [wallet this], skipPreflight = None\<rparr> in
       io_bind (extern (Rpc (SendTransaction tx)) (\<lambda>t. rpc_sendTransaction w t tx))
         (\<lambda>signature.
       io_then (extern (Rpc (ConfirmTransaction signature))
                  (\<lambda>t. rpc_confirmTransaction w t signature))
      (io_return signature)))))"

definition collectFees :: "world \<Rightarrow> real io" where
  "collectFees w =
     io_then (emit (SdkCall CollectFees))
    (io_bind (io_get sdk) (\<lambda>this.
     if controllerProgram this = None
       then io_throw (Error ''Controller program not configured'')
     else
       io_then (emit (ConsoleLog [S ''Collecting fees...'']))
      (let tx = \<lparr>instructions = [], signers = [wallet this], skipPreflight = None\<rparr> in
       io_bind (extern (Rpc (SendTransaction tx)) (\<lambda>t. rpc_sendTransaction w t tx))
         (\<lambda>signature.
       io_then (extern (Rpc (ConfirmTransaction signature))
                  (\<lambda>t. rpc_confirmTransaction w t signature))
      (io_return 0)))))"

definition getTokenPrice :: "string \<Rightarrow> real io" where
  "getTokenPrice mint = io_then (emit (SdkCall (GetTokenPrice mint))) (io_return (1 / 10000))"

definition getVolume24h :: "world \<Rightarrow> string \<Rightarrow> real io" where
  "getVolume24h w mint =
     io_then (emit (SdkCall (GetVolume24h mint)))
    (io_bind (extern (Rpc (GetSignaturesForAddress mint 1000))
                (\<lambda>t. rpc_getSignaturesForAddress w t mint 1000)) (\<lambda>signatures_length.
     io_return (real signatures_length * (1 / 10))))"

section \<open>\<open>LLMConnector\<close>\<close>

fun join_lines :: "string list \<Rightarrow> string" where
  "join_lines [] = []"
| "join_lines [l] = l"
| "join_lines (l # ls) = l @ [CHR 0x0A] @ join_lines ls"

fun join_tmpl :: "tmpl list \<Rightarrow> tmpl" where
  "join_tmpl [] = []"
| "join_tmpl [l] = l"
| "join_tmpl (l # ls) = l @ [S [CHR 0x0A]] @ join_tmpl ls"

fun res_map :: "('a \<Rightarrow> error + 'b) \<Rightarrow> 'a list \<Rightarrow> error + 'b list" where
  "res_map f [] = Inr []"
| "res_map f (x # xs) = res_bind (f x) (\<lambda>y. res_bind (res_map f xs) (\<lambda>ys. Inr (y # ys)))"

definition getDefaultSystemPrompt :: string where
  "getDefaultSystemPrompt = join_lines
     [''You are an expert cryptocurrency trading AI for the Mayhem protocol on Solana.'',
      [],
      ''Your responsibilities:'',
      ''1. Analyze market data and make informed trading decisions'',
      ''2. Manage risk by limiting position sizes'',
      ''3. Execute buybacks when prices are favorable'',
      ''4. Decide when to burn tokens vs add to LP'',
      ''5. Provide clear reasoning for all decisions'',
      [],
      ''Guidelines:'',
      ''- Never risk more than 2% of portfolio on a single trade'',
      ''- Prefer gradual accumulation over large market orders'',
      ''- Consider market sentiment and volume trends'',
      ''- Prioritize long-term value over short-term gains'',
      ''- Always provide JSON-formatted responses'']"

text \<open>
  The constructor stores the configuration and opens the conversation with the system
  prompt. It reads \<open>provider\<close> nowhere.
\<close>

definition LLMConnector_constructor :: "LLMConfig \<Rightarrow> error + LLMConnector" where
  "LLMConnector_constructor cfg =
     Inr \<lparr>llm_config = cfg,
          conversationHistory =
            [] @ [\<lparr>role = ''system'',
                    content = [S (or_else (systemPrompt cfg) getDefaultSystemPrompt)]\<rparr>]\<rparr>"

definition tx_line :: "jsval \<Rightarrow> error + tmpl" where
  "tx_line tx =
     res_bind (get_prop tx ''type'') (\<lambda>ty.
     res_bind (get_prop tx ''amount'') (\<lambda>am.
     res_bind (get_prop tx ''price'') (\<lambda>pr.
     Inr [S ''- '', V ty, S '': '', V am, S '' @ $'', V pr])))"

definition buildTradingPrompt :: "MarketData \<Rightarrow> error + tmpl" where
  \<open>buildTradingPrompt marketData =
     res_bind (res_map tx_line (recentTxs marketData)) (\<lambda>lines. Inr (
       [S (join_lines [''Analyze the following market data and decide on trading action:'',
                       [], ''Token: '']),
        V (JStr (md_symbol marketData)),
        S (join_lines [[], ''Current Price: $'']), V (JNum (price marketData)),
        S (join_lines [[], ''24h Volume: $'']), V (JNum (volume24h marketData)),
        S (join_lines [[], ''24h Price Change: '']), V (JNum (priceChange24h marketData)),
        S (join_lines [''%'', ''Market Cap: $'']), V (marketCap marketData),
        S (join_lines [[], ''Holders: '']), V (JNum (holders marketData)),
        S (join_lines [[], [], ''Recent Transactions:'', []])]
       @ join_tmpl lines @
       [S (join_lines [[], [],
             ''Respond in JSON format:'',
             ''{'',
             ''  "action": "buy" | "sell" | "hold" | "burn" | "add_lp",'',
             ''  "amount": <number in SOL>,'',
             ''  "reasoning": "<your analysis>",'',
             ''  "confidence": <0-1>'',
             ''}''])]))\<close>

definition buildMarketingPrompt :: "real \<Rightarrow> Metrics \<Rightarrow> tmpl" where
  \<open>buildMarketingPrompt budget metrics =
     [S (join_lines [''Analyze platform metrics and allocate marketing budget:'', [],
                     ''Available Budget: $'']),
      V (JNum budget),
      S (join_lines [[], [], ''Platform Performance (Last 7 days):'', ''- Twitter: '']),
      V (pm_engagement (twitter metrics)), S '' engagement, '',
      V (pm_reach (twitter metrics)), S (join_lines ['' reach'', ''- Discord: '']),
      V (pm_activeUsers (discord metrics)), S '' active users, '',
      V JUndefined, S (join_lines ['' messages'', ''- Telegram: '']),
      V JUndefined, S '' members, '',
      V JUndefined,
      S (join_lines [''% activity'', [],
           ''Recommend budget allocation and strategies in JSON format:'',
           ''{'',
           ''  "allocations": ['',
           ''    { "platform": "twitter", "amount": <USD>, "strategy": "<description>" },'',
           ''    { "platform": "discord", "amount": <USD>, "strategy": "<description>" }'',
           ''  ],'',
           ''  "reasoning": "<your analysis>"'',
           ''}''])]\<close>

definition queryOpenRouter :: "world \<Rightarrow> message list \<Rightarrow> jsval io" where
  "queryOpenRouter w messages =
     io_bind (io_get (\<lambda>s. llm_config (llm s))) (\<lambda>cfg.
     io_bind (http w \<lparr>url = [S ''https://openrouter.ai/api/v1/chat/completions''],
                       http_method = ''POST'',
                       headers = [(''Authorization'', [S ''Bearer '', V (opt_str (apiKey cfg))]),
                                  (''Content-Type'', [S ''application/json''])],
                       req_body = JsonObject
                         [(''model'', FVal (JStr (or_else (model cfg) ''anthropic/claude-3.5-sonnet''))),
                          (''messages'', FMessages messages)]\<rparr>) (\<lambda>response.
     io_lift (res_bind (JSON_parse w response) (\<lambda>data.
              res_bind (get_prop data ''choices'') (\<lambda>choices.
              res_bind (get_first choices) (\<lambda>choice.
              res_bind (get_prop choice ''message'') (\<lambda>msg.
              get_prop msg ''content'')))))))"

definition queryEliza :: "world \<Rightarrow> message list \<Rightarrow> jsval io" where
  "queryEliza w messages =
     io_bind (io_get (\<lambda>s. llm_config (llm s))) (\<lambda>cfg.
     io_bind (http w \<lparr>url = [V (opt_str (baseUrl cfg)), S ''/api/chat''],
                       http_method = ''POST'',
                       headers = [(''Content-Type'', [S ''application/json''])],
                       req_body = JsonObject
                         [(''messages'', FMessages messages),
                          (''agentId'', FVal (opt_str (apiKey cfg)))]\<rparr>) (\<lambda>response.
     io_lift (res_bind (JSON_parse w response) (\<lambda>data. get_prop data ''response''))))"

definition queryOpenAI :: "world \<Rightarrow> message list \<Rightarrow> jsval io" where
  "queryOpenAI w messages =
     io_bind (io_get (\<lambda>s. llm_config (llm s))) (\<lambda>cfg.
     io_bind (http w \<lparr>url = [S ''https://api.openai.com/v1/chat/completions''],
                       http_method = ''POST'',
                       headers = [(''Authorization'', [S ''Bearer '', V (opt_str (apiKey cfg))]),
                                  (''Content-Type'', [S ''application/json''])],
                       req_body = JsonObject
                         [(''model'', FVal (JStr (or_else (model cfg) ''gpt-4''))),
                          (''messages'', FMessages messages)]\<rparr>) (\<lambda>response.
     io_lift (res_bind (JSON_parse w response) (\<lambda>data.
              res_bind (get_prop data ''choices'') (\<lambda>choices.
              res_bind (get_first choices) (\<lambda>choice.
              res_bind (get_prop choice ''message'') (\<lambda>msg.
              get_prop msg ''content'')))))))"

definition queryAnthropic :: "world \<Rightarrow> message list \<Rightarrow> jsval io" where
  "queryAnthropic w messages =
     io_bind (io_get (\<lambda>s. llm_config (llm s))) (\<lambda>cfg.
     io_bind (http w \<lparr>url = [S ''https://api.anthropic.com/v1/messages''],
                       http_method = ''POST'',
                       headers = [(''x-api-key'', [V (opt_str (apiKey cfg))]),
                                  (''anthropic-version'', [S ''2023-06-01'']),
                                  (''Content-Type'', [S ''application/json''])],
                       req_body = JsonObject
                         [(''model'', FVal (JStr (or_else (model cfg) ''claude-3-5-sonnet-20241022''))),
                          (''max_tokens'', FVal (JNum 1024)),
                          (''messages'', FMessages (filter (\<lambda>m. role m \<noteq> ''system'') messages)),
                          (''system'', case find (\<lambda>m. role m = ''system'') messages of
                                         None \<Rightarrow> FVal JUndefined
                                       | Some m \<Rightarrow> FText (content m))]\<rparr>) (\<lambda>response.
     io_lift (res_bind (JSON_parse w response) (\<lambda>data.
              res_bind (get_prop data ''content'') (\<lambda>blocks.
              res_bind (get_first blocks) (\<lambda>block.
              get_prop block ''text''))))))"

definition queryCustom :: "world \<Rightarrow> message list \<Rightarrow> jsval io" where
  "queryCustom w messages =
     io_bind (io_get (\<lambda>s. llm_config (llm s))) (\<lambda>cfg.
     io_bind (http w \<lparr>url = [V (opt_str (baseUrl cfg))],
                       http_method = ''POST'',
                       headers = [(''Content-Type'', [S ''application/json''])],
                       req_body = JsonObject [(''messages'', FMessages messages)]\<rparr>)
       (\<lambda>response.
     io_lift (res_bind (JSON_parse w response) (\<lambda>data. get_prop data ''response''))))"

text \<open>
  \<open>provider\<close> is compared as the string it is at run time, so a value outside the
  declared union reaches the \<open>default\<close> branch. A custom prompt, when given, is the
  marketing prompt, whose fixed text makes it a non-empty (truthy) string.
\<close>

definition queryLLM :: "world \<Rightarrow> tmpl option \<Rightarrow> jsval io" where
  "queryLLM w customPrompt =
     io_bind (io_get llm) (\<lambda>this.
     let messages = (case customPrompt of
                       Some p \<Rightarrow> [\<lparr>role = ''user'', content = p\<rparr>]
                     | None \<Rightarrow> conversationHistory this);
         p = provider (llm_config this)
     in if p = ''openrouter'' then queryOpenRouter w messages
        else if p = ''eliza'' then queryEliza w messages
        else if p = ''openai'' then queryOpenAI w messages
        else if p = ''anthropic'' then queryAnthropic w messages
        else if p = ''custom'' then queryCustom w messages
        else io_throw (Error (''Unsupported provider: '' @ p)))"

text \<open>
  The reply is declared a string; \<open>JSON.parse\<close> converts whatever it is given to a
  string first. The fallback object has no \<open>amount\<close> key, which reads as \<open>undefined\<close>.
\<close>

definition parseTradingResponse :: "world \<Rightarrow> jsval \<Rightarrow> error + LLMResponse" where
  "parseTradingResponse w response =
     res_catch
       (res_bind (JSON_parse w (ToString w response)) (\<lambda>parsed.
        res_bind (get_prop parsed ''action'') (\<lambda>a.
        res_bind (get_prop parsed ''amount'') (\<lambda>m.
        res_bind (get_prop parsed ''reasoning'') (\<lambda>r.
        res_bind (get_prop parsed ''confidence'') (\<lambda>c.
        Inr \<lparr>action = a, amount = m, reasoning = r, confidence = c\<rparr>))))))
       (\<lambda>error.
        Inr \<lparr>action = JStr ''hold'', amount = JUndefined, reasoning = response,
             confidence = JNum (5 / 10)\<rparr>)"

definition parseMarketingResponse :: "world \<Rightarrow> jsval \<Rightarrow> error + jsval" where
  "parseMarketingResponse w response =
     res_catch (JSON_parse w (ToString w response))
       (\<lambda>error. Inr (JObj [(''allocations'', JArr []), (''reasoning'', response)]))"

definition push_history :: "message \<Rightarrow> unit io" where
  "push_history m =
     io_modify (\<lambda>s. s\<lparr>llm := (llm s)\<lparr>conversationHistory := conversationHistory (llm s) @ [m]\<rparr>\<rparr>)"

definition decideTrade :: "world \<Rightarrow> MarketData \<Rightarrow> LLMResponse io" where
  "decideTrade w marketData =
     io_bind (io_lift (buildTradingPrompt marketData)) (\<lambda>prompt.
     io_then (push_history \<lparr>role = ''user'', content = prompt\<rparr>)
    (io_bind (queryLLM w None) (\<lambda>response.
     io_then (push_history \<lparr>role = ''assistant'', content = [J response]\<rparr>)
    (io_lift (parseTradingResponse w response)))))"

definition decideMarketing :: "world \<Rightarrow> real \<Rightarrow> Metrics \<Rightarrow> jsval io" where
  "decideMarketing w budget metrics =
     io_bind (queryLLM w (Some (buildMarketingPrompt budget metrics))) (\<lambda>response.
     io_lift (parseMarketingResponse w response))"

section \<open>Trading loop driver: \<open>TradingAgent\<close>\<close>

definition getMarketData :: "world \<Rightarrow> string \<Rightarrow> MarketData io" where
  "getMarketData w mintText =
     io_bind (io_lift (PublicKey_new w mintText)) (\<lambda>mint.
     io_bind (getTokenInfo w mintText) (\<lambda>tokenInfo.
     io_bind (getTokenPrice mint) (\<lambda>p.
     io_bind (getVolume24h w mint) (\<lambda>vol.
     io_return \<lparr>md_symbol = ti_symbol tokenInfo, price = p, volume24h = vol,
                priceChange24h = 0,
                marketCap = js_times w (JNum p) (ti_supply tokenInfo),
                holders = 0, recentTxs = []\<rparr>))))"

definition executeBuy :: "world \<Rightarrow> string \<Rightarrow> jsval \<Rightarrow> unit io" where
  "executeBuy w mint amt =
     io_then (emit (ConsoleLog [S ''Buying '', V amt, S '' SOL worth of tokens'']))
    (io_then (trade w \<lparr>tp_tokenMint = mint, tp_amount = amt, tp_side = Buy,
                        tp_slippage = Some (1 / 100)\<rparr>)
    (io_return ()))"

definition executeSell :: "world \<Rightarrow> string \<Rightarrow> jsval \<Rightarrow> unit io" where
  "executeSell w mint amt =
     io_then (emit (ConsoleLog [S ''Selling '', V amt, S '' tokens'']))
    (io_then (trade w \<lparr>tp_tokenMint = mint, tp_amount = amt, tp_side = Sell,
                        tp_slippage = Some (1 / 100)\<rparr>)
    (io_return ()))"

definition executeBurn :: "string \<Rightarrow> jsval \<Rightarrow> unit io" where
  "executeBurn mint amt = emit (ConsoleLog [S ''Burning '', V amt, S '' tokens''])"

text \<open>
  The \<open>switch\<close> compares \<open>decision.action\<close> with \<open>===\<close>, so only the five strings
  select a branch; each trading branch is guarded by the truthiness of \<open>amount\<close>.
\<close>

definition executeDecision :: "world \<Rightarrow> LLMResponse \<Rightarrow> unit io" where
  "executeDecision w decision =
     io_bind (io_get (\<lambda>s. config (agent s))) (\<lambda>c.
     case c of
       None \<Rightarrow> io_return ()
     | Some cfg \<Rightarrow>
         io_bind (io_lift (PublicKey_new w (tokenMint cfg))) (\<lambda>mint.
         if action decision = JStr ''buy'' then
           (if ToBoolean (amount decision) then executeBuy w mint (amount decision)
            else io_return ())
         else if action decision = JStr ''sell'' then
           (if ToBoolean (amount decision) then executeSell w mint (amount decision)
            else io_return ())
         else if action decision = JStr ''burn'' then
           (if ToBoolean (amount decision) then executeBurn mint (amount decision)
            else io_return ())
         else if action decision = JStr ''add_lp'' then
           (if ToBoolean (amount decision)
            then io_then (addLiquidityFromFees w mint (amount decision)) (io_return ())
            else io_return ())
         else if action decision = JStr ''hold'' then
           emit (ConsoleLog [S ''Holding position''])
         else io_return ()))"

definition checkBuyback :: "world \<Rightarrow> MarketData \<Rightarrow> unit io" where
  "checkBuyback w marketData =
     io_bind (io_get agent) (\<lambda>this.
     case buybackConfig this of
       None \<Rightarrow> io_return ()
     | Some bb \<Rightarrow>
        (case config this of
           None \<Rightarrow> io_return ()
         | Some cfg \<Rightarrow>
             let shouldBuyback =
                   (case triggerPrice bb of
                      None \<Rightarrow> False
                    | Some t \<Rightarrow> t \<noteq> 0 \<and> price marketData < t)
             in if shouldBuyback then
                  io_then (emit (ConsoleLog [S ''Buyback triggered!'']))
                 (io_bind (collectFees w) (\<lambda>feeAmount.
                  if 0 < feeAmount then
                    io_bind (io_lift (PublicKey_new w (tokenMint cfg))) (\<lambda>mint.
                    io_then (buybackAndBurn w \<lparr>bp_tokenMint = mint, solAmount = feeAmount,
                                                bp_burnPercentage = burnPercentage bb\<rparr>)
                   (io_return ()))
                  else io_return ()))
                else io_return ()))"

text \<open>The statements inside \<open>try\<close>, for the configuration the guard found.\<close>

definition analyzeAndTrade_try :: "world \<Rightarrow> TradingConfig \<Rightarrow> unit io" where
  "analyzeAndTrade_try w cfg =
     io_bind (getMarketData w (tokenMint cfg)) (\<lambda>marketData.
     io_bind (decideTrade w marketData) (\<lambda>decision.
     io_then (emit (ConsoleLog [S ''LLM Decision: '', V (action decision), S '' ('',
                                V (js_times w (confidence decision) (JNum 100)),
                                S ''% confident)'']))
    (io_then (emit (ConsoleLog [S ''Reasoning: '', V (reasoning decision)]))
    (io_then (if js_gt w (confidence decision) (7 / 10)
              then executeDecision w decision
              else emit (ConsoleLog [S ''Low confidence - skipping trade'']))
    (io_bind (io_get (\<lambda>s. buybackConfig (agent s))) (\<lambda>bb.
     if (case bb of None \<Rightarrow> False | Some b \<Rightarrow> enabled b)
     then checkBuyback w marketData
     else io_return ()))))))"

definition analyzeAndTrade :: "world \<Rightarrow> unit io" where
  "analyzeAndTrade w =
     io_bind (io_get (\<lambda>s. config (agent s))) (\<lambda>c.
     case c of
       None \<Rightarrow> io_return ()
     | Some cfg \<Rightarrow>
         io_catch (analyzeAndTrade_try w cfg)
           (\<lambda>error. emit (ConsoleError ''Trading error:'' error)))"

definition startTrading :: "world \<Rightarrow> TradingConfig \<Rightarrow> unit io" where
  "startTrading w cfg =
     io_bind (io_get (\<lambda>s. isRunning (agent s))) (\<lambda>running.
     if running then io_throw (Error ''Agent already running'')
     else
       io_then (io_modify (\<lambda>s. s\<lparr>agent := (agent s)\<lparr>config := Some cfg\<rparr>\<rparr>))
      (io_then (io_modify (\<lambda>s. s\<lparr>agent := (agent s)\<lparr>isRunning := True\<rparr>\<rparr>))
      (io_then (emit (ConsoleLog [S ''Starting '', V (JStr (strategy cfg)), S '' trading for '',
                                  V (JStr (tokenMint cfg))]))
      (io_bind (setInterval TradingTick 30000) (\<lambda>h.
       io_then (io_modify (\<lambda>s. s\<lparr>agent := (agent s)\<lparr>checkInterval := Some h\<rparr>\<rparr>))
      (analyzeAndTrade w))))))"

definition stopTrading :: "unit io" where
  "stopTrading =
     io_bind (io_get (\<lambda>s. checkInterval (agent s))) (\<lambda>ci.
     io_then (case ci of
                None \<Rightarrow> io_return ()
              | Some h \<Rightarrow>
                  io_then (clearInterval h)
                    (io_modify (\<lambda>s. s\<lparr>agent := (agent s)\<lparr>checkInterval := None\<rparr>\<rparr>)))
    (io_then (io_modify (\<lambda>s. s\<lparr>agent := (agent s)\<lparr>isRunning := False\<rparr>\<rparr>))
    (emit (ConsoleLog [S ''Trading stopped'']))))"

definition enableBuybackBurn :: "BuybackConfig \<Rightarrow> unit io" where
  "enableBuybackBurn cfg =
     io_then (io_modify (\<lambda>s. s\<lparr>agent := (agent s)\<lparr>buybackConfig := Some cfg\<rparr>\<rparr>))
    (emit (ConsoleLog [S ''Buyback enabled: '', V (JNum (burnPercentage cfg)), S ''% burn'']))"

section \<open>Marketing loop driver: \<open>MarketingAgent\<close>\<close>

definition calculateMetrics :: "world \<Rightarrow> jsval \<Rightarrow> error + PlatformMetrics" where
  "calculateMetrics w platformData =
     res_bind (get_prop platformData ''name'') (\<lambda>nm.
     res_bind (get_prop platformData ''likes'') (\<lambda>likes.
     res_bind (get_prop platformData ''comments'') (\<lambda>comments.
     res_bind (get_prop platformData ''shares'') (\<lambda>shares.
     res_bind (get_prop platformData ''impressions'') (\<lambda>impressions.
     res_bind (get_prop platformData ''activeUsers'') (\<lambda>au.
     res_bind (get_prop platformData ''followerGrowth'') (\<lambda>fg.
     res_bind (get_prop platformData ''avgResponseTime'') (\<lambda>art.
     res_bind (get_prop platformData ''spend'') (\<lambda>spend.
     res_bind (get_prop platformData ''engagement'') (\<lambda>eng.
     Inr \<lparr>pm_platform = nm,
          pm_engagement = js_plus w (js_plus w likes comments) shares,
          pm_reach = impressions,
          pm_activeUsers = au,
          pm_growthRate = fg,
          pm_avgResponseTime = art,
          pm_costPerEngagement = js_divide w spend eng\<rparr>))))))))))"

definition fetchPlatformMetrics :: "world \<Rightarrow> Metrics io" where
  "fetchPlatformMetrics w =
     io_bind (io_get (\<lambda>s. apiUrl (marketing s))) (\<lambda>u.
     io_bind (http w \<lparr>url = [V (JStr u), S ''/api/marketing/metrics''],
                       http_method = ''GET'', headers = [], req_body = NoBody\<rparr>) (\<lambda>response.
     io_lift (res_bind (JSON_parse w response) (\<lambda>data.
              res_bind (res_bind (get_prop data ''twitter'') (calculateMetrics w)) (\<lambda>tw.
              res_bind (res_bind (get_prop data ''discord'') (calculateMetrics w)) (\<lambda>dc.
              res_bind (res_bind (get_prop data ''telegram'') (calculateMetrics w)) (\<lambda>tg.
              Inr \<lparr>twitter = tw, discord = dc, telegram = tg\<rparr>)))))))"

definition executeAllocation :: "world \<Rightarrow> jsval \<Rightarrow> unit io" where
  "executeAllocation w allocation =
     io_bind (io_get (\<lambda>s. apiUrl (marketing s))) (\<lambda>u.
     io_bind (io_lift (get_prop allocation ''amount'')) (\<lambda>am.
     io_bind (io_lift (get_prop allocation ''platform'')) (\<lambda>pf.
     io_then (emit (ConsoleLog [S ''Allocating $'', V am, S '' to '', V pf]))
    (io_bind (io_lift (get_prop allocation ''strategy'')) (\<lambda>st.
     io_then (emit (ConsoleLog [S ''   Strategy: '', V st]))
    (io_bind (io_lift (get_prop allocation ''expectedROI'')) (\<lambda>roi.
     io_then (emit (ConsoleLog [S ''   Expected ROI: '', V roi, S ''x'']))
    (io_then (http w \<lparr>url = [V (JStr u), S ''/api/marketing/allocate''],
                       http_method = ''POST'',
                       headers = [(''Content-Type'', [S ''application/json''])],
                       req_body = JsonValue allocation\<rparr>)
    (io_return ())))))))))"

definition trackPerformance :: "world \<Rightarrow> jsval \<Rightarrow> unit io" where
  "trackPerformance w allocations =
     io_bind (io_get (\<lambda>s. apiUrl (marketing s))) (\<lambda>u.
     io_bind (io_get (\<lambda>s. Date_now w (length (trace s)))) (\<lambda>now.
     io_then (http w \<lparr>url = [V (JStr u), S ''/api/marketing/track''],
                       http_method = ''POST'',
                       headers = [(''Content-Type'', [S ''application/json''])],
                       req_body = JsonObject [(''timestamp'', FVal (JNum now)),
                                              (''allocations'', FVal allocations)]\<rparr>)
    (io_return ())))"

definition analyzeAndAllocate_try :: "world \<Rightarrow> MarketingConfig \<Rightarrow> unit io" where
  "analyzeAndAllocate_try w cfg =
     io_bind (fetchPlatformMetrics w) (\<lambda>metrics.
     io_bind (decideMarketing w (totalBudget cfg) metrics) (\<lambda>decision.
     io_bind (io_lift (get_prop decision ''reasoning'')) (\<lambda>r.
     io_then (emit (ConsoleLog [S ''Marketing Strategy:'', V r]))
    (io_bind (io_lift (res_bind (get_prop decision ''allocations'') iterate)) (\<lambda>allocations.
     io_then (io_forEach (executeAllocation w) allocations)
    (io_bind (io_lift (get_prop decision ''allocations'')) (\<lambda>al.
     trackPerformance w al)))))))"

definition analyzeAndAllocate :: "world \<Rightarrow> unit io" where
  "analyzeAndAllocate w =
     io_bind (io_get (\<lambda>s. mk_config (marketing s))) (\<lambda>c.
     case c of
       None \<Rightarrow> io_return ()
     | Some cfg \<Rightarrow>
         io_catch (analyzeAndAllocate_try w cfg)
           (\<lambda>error. emit (ConsoleError ''Marketing error:'' error)))"

definition startMarketing :: "world \<Rightarrow> MarketingConfig \<Rightarrow> unit io" where
  "startMarketing w cfg =
     io_bind (io_get (\<lambda>s. mk_isRunning (marketing s))) (\<lambda>running.
     if running then io_throw (Error ''Marketing agent already running'')
     else
       io_then (io_modify (\<lambda>s. s\<lparr>marketing := (marketing s)\<lparr>mk_config := Some cfg\<rparr>\<rparr>))
      (io_then (io_modify (\<lambda>s. s\<lparr>marketing := (marketing s)\<lparr>mk_isRunning := True\<rparr>\<rparr>))
      (io_then (emit (ConsoleLog [S ''Starting AI marketing with $'',
                                  V (JNum (totalBudget cfg)), S '' budget'']))
      (io_bind (setInterval MarketingTick (rebalanceInterval cfg * 60 * 60 * 1000)) (\<lambda>h.
       io_then (io_modify (\<lambda>s. s\<lparr>marketing := (marketing s)\<lparr>monitorInterval := Some h\<rparr>\<rparr>))
      (analyzeAndAllocate w))))))"

definition stopMarketing :: "unit io" where
  "stopMarketing =
     io_bind (io_get (\<lambda>s. monitorInterval (marketing s))) (\<lambda>mi.
     io_then (case mi of
                None \<Rightarrow> io_return ()
              | Some h \<Rightarrow>
                  io_then (clearInterval h)
                    (io_modify (\<lambda>s. s\<lparr>marketing := (marketing s)\<lparr>monitorInterval := None\<rparr>\<rparr>)))
    (io_then (io_modify (\<lambda>s. s\<lparr>marketing := (marketing s)\<lparr>mk_isRunning := False\<rparr>\<rparr>))
    (emit (ConsoleLog [S ''Marketing automation stopped'']))))"

section \<open>Observing a run\<close>

text \<open>The events a call appended to the trace: those of \<open>s'\<close> beyond the ones of \<open>s\<close>.\<close>

definition new_events :: "state \<Rightarrow> state \<Rightarrow> event list" where
  "new_events s s' = drop (length (trace s)) (trace s')"

text \<open>
  \<open>steps P s s'\<close>: from \<open>s\<close> to \<open>s'\<close> the facade, both drivers and the timers are
  as they were, and the trace only grew, by events that satisfy \<open>P\<close>. The conversation
  history of the connector is the one part of the state left free. A method is
  \<open>quiet P\<close> when every call of it makes such a step.
\<close>

definition steps :: "(event \<Rightarrow> bool) \<Rightarrow> state \<Rightarrow> state \<Rightarrow> bool" where
  "steps P s s' \<longleftrightarrow>
     sdk s' = sdk s \<and> agent s' = agent s \<and> marketing s' = marketing s \<and>
     timers s' = timers s \<and> timer_seq s' = timer_seq s \<and>
     (\<exists>evs. trace s' = trace s @ evs \<and> list_all P evs)"

definition quiet :: "(event \<Rightarrow> bool) \<Rightarrow> 'a io \<Rightarrow> bool" where
  "quiet P m \<longleftrightarrow> (\<forall>s. steps P s (snd (m s)))"

text \<open>The provider tags of the \<open>switch\<close> in \<open>queryLLM\<close>.\<close>

definition supported_providers :: "string list" where
  "supported_providers = [''openrouter'', ''eliza'', ''openai'', ''anthropic'', ''custom'']"

text \<open>
  What only the dispatch of a decision produces: a call of \<open>sdk.trade\<close>,
  \<open>sdk.addLiquidityFromFees\<close> or \<open>sdk.buybackAndBurn\<close>, and the console line that opens
  \<open>executeBuy\<close>, \<open>executeSell\<close> and \<open>executeBurn\<close> (the burn branch calls nothing else).
\<close>

definition is_execution :: "event \<Rightarrow> bool" where
  "is_execution e =
     (case e of
        SdkCall c \<Rightarrow>
          (case c of Trade p \<Rightarrow> True | AddLiquidityFromFees m a \<Rightarrow> True
                   | BuybackAndBurn p \<Rightarrow> True | _ \<Rightarrow> False)
      | ConsoleLog t \<Rightarrow>
          (case t of
             S h # rest \<Rightarrow> h = ''Buying '' \<or> h = ''Selling '' \<or> h = ''Burning ''
           | _ \<Rightarrow> False)
      | _ \<Rightarrow> False)"

definition no_exec :: "event \<Rightarrow> bool" where
  "no_exec e = (\<not> is_execution e)"

definition is_buyback_call :: "event \<Rightarrow> bool" where
  "is_buyback_call e = (case e of SdkCall (BuybackAndBurn p) \<Rightarrow> True | _ \<Rightarrow> False)"

definition no_buyback :: "event \<Rightarrow> bool" where
  "no_buyback e = (\<not> is_buyback_call e)"

text \<open>
  The \<open>try\<close> block of \<open>analyzeAndTrade\<close> read in three parts, so that a statement can
  speak of the snapshot and the decision of a tick: up to the two lines that log the
  decision (\<open>decide_stage\<close>), up to the execution of the decision (\<open>trade_stage\<close>), and
  the buyback check that follows (\<open>buyback_stage\<close>). Lemma \<open>try_stages\<close> shows that the
  parts in sequence are the block.
\<close>

definition decide_stage :: "world \<Rightarrow> TradingConfig \<Rightarrow> (MarketData \<times> LLMResponse) io" where
  "decide_stage w cfg =
     io_bind (getMarketData w (tokenMint cfg)) (\<lambda>marketData.
     io_bind (decideTrade w marketData) (\<lambda>decision.
     io_then (emit (ConsoleLog [S ''LLM Decision: '', V (action decision), S '' ('',
                                V (js_times w (confidence decision) (JNum 100)),
                                S ''% confident)'']))
    (io_then (emit (ConsoleLog [S ''Reasoning: '', V (reasoning decision)]))
    (io_return (marketData, decision)))))"

definition trade_stage :: "world \<Rightarrow> TradingConfig \<Rightarrow> MarketData io" where
  "trade_stage w cfg =
     io_bind (decide_stage w cfg) (\<lambda>(marketData, decision).
     io_then (if js_gt w (confidence decision) (7 / 10)
              then executeDecision w decision
              else emit (ConsoleLog [S ''Low confidence - skipping trade'']))
    (io_return marketData))"

definition buyback_stage :: "world \<Rightarrow> MarketData \<Rightarrow> unit io" where
  "buyback_stage w marketData =
     io_bind (io_get (\<lambda>s. buybackConfig (agent s))) (\<lambda>bb.
     if (case bb of None \<Rightarrow> False | Some b \<Rightarrow> enabled b)
     then checkBuyback w marketData
     else io_return ())"

definition is_trade_call :: "event \<Rightarrow> bool" where
  "is_trade_call e = (case e of SdkCall (Trade p) \<Rightarrow> True | _ \<Rightarrow> False)"

definition is_send :: "event \<Rightarrow> bool" where
  "is_send e = (case e of Rpc (SendTransaction tx) \<Rightarrow> True | _ \<Rightarrow> False)"

definition any_event :: "event \<Rightarrow> bool" where
  "any_event e = True"

text \<open>
  The two states of the trading driver, and the calls that reach it: its public
  methods, those of the marketing driver (which shares the event loop's timers), and a
  timer firing, which runs the callback registered under that handle.
\<close>

datatype phase = Idle | Running

definition phase_of :: "state \<Rightarrow> phase" where
  "phase_of s = (if isRunning (agent s) then Running else Idle)"

datatype command =
    StartTrading TradingConfig
  | StopTrading
  | EnableBuybackBurn BuybackConfig
  | StartMarketing MarketingConfig
  | StopMarketing
  | TimerFires nat

definition fire :: "world \<Rightarrow> nat \<Rightarrow> unit io" where
  "fire w h =
     io_bind (io_get timers) (\<lambda>ts.
     case find (\<lambda>t. fst t = h) ts of
       None \<Rightarrow> io_return ()
     | Some t \<Rightarrow>
        (case fst (snd t) of
           TradingTick \<Rightarrow> analyzeAndTrade w
         | MarketingTick \<Rightarrow> analyzeAndAllocate w))"

definition perform :: "world \<Rightarrow> command \<Rightarrow> unit io" where
  "perform w c =
     (case c of
        StartTrading cfg \<Rightarrow> startTrading w cfg
      | StopTrading \<Rightarrow> stopTrading
      | EnableBuybackBurn cfg \<Rightarrow> enableBuybackBurn cfg
      | StartMarketing cfg \<Rightarrow> startMarketing w cfg
      | StopMarketing \<Rightarrow> stopMarketing
      | TimerFires h \<Rightarrow> fire w h)"

fun run :: "world \<Rightarrow> command list \<Rightarrow> state \<Rightarrow> state" where
  "run w [] s = s"
| "run w (c # cs) s = run w cs (snd (perform w c s))"

text \<open>The state once \<open>new TradingAgent(sdk, llm)\<close> and \<open>new MarketingAgent(apiUrl, llm)\<close> have run.\<close>

definition fresh :: "MayhemSDK \<Rightarrow> LLMConnector \<Rightarrow> string \<Rightarrow> state" where
  "fresh sd l u =
     \<lparr>sdk = sd, llm = l,
      agent = \<lparr>isRunning = False, config = None, buybackConfig = None, checkInterval = None\<rparr>,
      marketing = \<lparr>apiUrl = u, mk_config = None, mk_isRunning = False, monitorInterval = None\<rparr>,
      timers = [], timer_seq = 0, trace = []\<rparr>"

definition trading_timers :: "state \<Rightarrow> (nat \<times> callback \<times> real) list" where
  "trading_timers s = filter (\<lambda>t. fst (snd t) = TradingTick) (timers s)"

text \<open>
  The invariant of every reachable state: the driver is running exactly when it holds a
  timer handle, the trading timers of the event loop are that one timer, and the
  handle the marketing driver holds is another one.
\<close>

definition timers_ok :: "state \<Rightarrow> bool" where
  "timers_ok s \<longleftrightarrow>
     (\<forall>t \<in> set (timers s). fst t < timer_seq s) \<and>
     isRunning (agent s) = (checkInterval (agent s) \<noteq> None) \<and>
     (\<forall>h. checkInterval (agent s) = Some h \<longrightarrow> h < timer_seq s) \<and>
     trading_timers s =
       (case checkInterval (agent s) of None \<Rightarrow> [] | Some h \<Rightarrow> [(h, TradingTick, 30000)]) \<and>
     (\<forall>h. monitorInterval (marketing s) = Some h \<longrightarrow>
          h < timer_seq s \<and> checkInterval (agent s) \<noteq> Some h)"

section \<open>Sample worlds and states\<close>

text \<open>
  Concrete worlds for the examples. The language model is reached through the
  \<open>custom\<close> provider; the endpoint answers every request with the JSON document
  \<open>{"response": reply}\<close>, and \<open>JSON.parse\<close> is the table of the two documents of the
  run: that body, and the reply itself (\<open>None\<close> when the reply is not JSON). Every RPC
  call succeeds. Answers outside the examples are placeholders.
\<close>

definition sample_mint :: string where
  "sample_mint = ''So11111111111111111111111111111111111111112''"

definition json_quote :: "string \<Rightarrow> string" where
  "json_quote s =
     [CHR 0x22] @
     concat (map (\<lambda>c. if c = CHR 0x22 \<or> c = CHR 0x5C then [CHR 0x5C, c] else [c]) s) @
     [CHR 0x22]"

definition llm_body :: "string \<Rightarrow> string" where
  \<open>llm_body reply = ''{"response":'' @ json_quote reply @ ''}''\<close>

definition sample_account :: jsval where
  "sample_account =
     JObj [(''data'', JObj [(''parsed'', JObj [(''info'',
       JObj [(''decimals'', JNum 9), (''supply'', JStr ''1000000000'')])])])]"

definition sample_arith :: "(real \<Rightarrow> real \<Rightarrow> real) \<Rightarrow> jsval \<Rightarrow> jsval \<Rightarrow> jsval" where
  "sample_arith f a b =
     (case a of
        JNum x \<Rightarrow>
          (case b of
             JNum y \<Rightarrow> JNum (f x y)
           | JStr t \<Rightarrow> if t = ''1000000000'' then JNum (f x 1000000000) else JUndefined
           | _ \<Rightarrow> JUndefined)
      | _ \<Rightarrow> JUndefined)"

definition sample_world :: "string \<Rightarrow> jsval option \<Rightarrow> world" where
  "sample_world reply parsed =
     \<lparr>JSON_parse = (\<lambda>t. if t = llm_body reply then Inr (JObj [(''response'', JStr reply)])
                        else if t = reply
                        then (case parsed of None \<Rightarrow> Inl SyntaxError | Some v \<Rightarrow> Inr v)
                        else Inl SyntaxError),
      StringToNumber = (\<lambda>t. if t = ''1000000000'' then Some 1000000000 else None),
      ToString_other = (\<lambda>v. ''[object Object]''),
      js_times = sample_arith (\<lambda>x y. x * y),
      js_plus = sample_arith (\<lambda>x y. x + y),
      js_divide = sample_arith (\<lambda>x y. x / y),
      PublicKey_valid = (\<lambda>t. t = sample_mint),
      fetch = (\<lambda>n req. Inr (llm_body reply)),
      rpc_getParsedAccountInfo = (\<lambda>n m. Inr sample_account),
      rpc_getSignaturesForAddress = (\<lambda>n m lim. Inr 25),
      rpc_sendTransaction = (\<lambda>n tx. Inr ''sig-1''),
      rpc_confirmTransaction = (\<lambda>n sg. Inr ()),
      Date_now = (\<lambda>n. 1700000000000)\<rparr>"

definition sample_config :: TradingConfig where
  "sample_config =
     \<lparr>tokenMint = sample_mint, strategy = ''dca'', maxRisk = 2 / 100,
      stopLoss = Some 20, takeProfit = Some 50\<rparr>"

definition sample_buyback :: BuybackConfig where
  "sample_buyback =
     \<lparr>enabled = True, triggerPrice = Some (2 / 10000), burnPercentage = 50,
      lpPercentage = None\<rparr>"

definition sample_state :: "string option \<Rightarrow> BuybackConfig option \<Rightarrow> state" where
  "sample_state wl bb =
     \<lparr>sdk = \<lparr>wallet = wl, mayhemProgram = ''MayhemProgram'',
             controllerProgram = Some ''ControllerProgram''\<rparr>,
      llm = \<lparr>llm_config = \<lparr>provider = ''custom'', apiKey = None, model = None,
                           baseUrl = Some ''http://localhost:8080/llm'',
                           systemPrompt = Some ''Reply in JSON.''\<rparr>,
             conversationHistory = [\<lparr>role = ''system'', content = [S ''Reply in JSON.'']\<rparr>]\<rparr>,
      agent = \<lparr>isRunning = True, config = Some sample_config, buybackConfig = bb,
               checkInterval = Some 0\<rparr>,
      marketing = \<lparr>apiUrl = ''http://localhost:3000'', mk_config = None,
                   mk_isRunning = False, monitorInterval = None\<rparr>,
      timers = [(0, TradingTick, 30000)], timer_seq = 1, trace = []\<rparr>"

definition reply_buy_low :: string where
  \<open>reply_buy_low = ''{"action":"buy","amount":1,"reasoning":"dip","confidence":0.65}''\<close>

definition parsed_buy_low :: jsval where
  "parsed_buy_low = JObj [(''action'', JStr ''buy''), (''amount'', JNum 1),
                          (''reasoning'', JStr ''dip''), (''confidence'', JNum (65 / 100))]"

definition sample_snapshot :: MarketData where
  "sample_snapshot =
     \<lparr>md_symbol = ''TKN'', price = 1 / 10000, volume24h = 25 / 10, priceChange24h = 0,
      marketCap = JNum 100000, holders = 0, recentTxs = []\<rparr>"

definition reply_prose :: string where
  "reply_prose = ''I would hold for now.''"

definition reply_wild :: string where
  \<open>reply_wild = ''{"action":"moon","reasoning":"yolo","confidence":1.5}''\<close>

definition fields_wild :: "(string \<times> jsval) list" where
  "fields_wild = [(''action'', JStr ''moon''), (''reasoning'', JStr ''yolo''),
                  (''confidence'', JNum (15 / 10))]"

definition reply_buy_high :: string where
  \<open>reply_buy_high = ''{"action":"buy","amount":1,"reasoning":"dip","confidence":0.9}''\<close>

definition parsed_buy_high :: jsval where
  "parsed_buy_high = JObj [(''action'', JStr ''buy''), (''amount'', JNum 1),
                           (''reasoning'', JStr ''dip''), (''confidence'', JNum (9 / 10))]"

definition reply_buy_bare :: string where
  \<open>reply_buy_bare = ''{"action":"buy","reasoning":"dip","confidence":0.9}''\<close>

definition parsed_buy_bare :: jsval where
  "parsed_buy_bare = JObj [(''action'', JStr ''buy''), (''reasoning'', JStr ''dip''),
                           (''confidence'', JNum (9 / 10))]"

definition gemini_config :: LLMConfig where
  "gemini_config = \<lparr>provider = ''gemini'', apiKey = None, model = None, baseUrl = None,
                     systemPrompt = None\<rparr>"

definition decision_low :: LLMResponse where
  "decision_low = \<lparr>action = JStr ''buy'', amount = JNum 1, reasoning = JStr ''dip'',
                    confidence = JNum (65 / 100)\<rparr>"

definition decision_high :: LLMResponse where
  "decision_high = \<lparr>action = JStr ''buy'', amount = JNum 1, reasoning = JStr ''dip'',
                     confidence = JNum (9 / 10)\<rparr>"

definition decision_bare :: LLMResponse where
  "decision_bare = \<lparr>action = JStr ''buy'', amount = JUndefined, reasoning = JStr ''dip'',
                     confidence = JNum (9 / 10)\<rparr>"

definition sample_params :: BuybackParams where
  "sample_params = \<lparr>bp_tokenMint = sample_mint, solAmount = 3 / 2, bp_burnPercentage = 50\<rparr>"

definition bad_config :: TradingConfig where
  "bad_config = \<lparr>tokenMint = ''not-a-key'', strategy = ''dca'', maxRisk = 2 / 100,
                  stopLoss = None, takeProfit = None\<rparr>"

definition sample_marketing_config :: MarketingConfig where
  "sample_marketing_config =
     \<lparr>totalBudget = 1000, platforms = [''twitter'', ''discord''], minROI = 2,
      rebalanceInterval = 24\<rparr>"

text \<open>
  A state in which both drivers run and both ticks fail: the token mint is not a public
  key, and the metrics endpoint answers with a document that has no \<open>twitter\<close> entry.
\<close>

definition failing_state :: state where
  "failing_state =
     (sample_state None None)
       \<lparr>agent := \<lparr>isRunning = True, config = Some bad_config, buybackConfig = None,
                  checkInterval = Some 0\<rparr>,
        marketing := \<lparr>apiUrl = ''http://localhost:3000'',
                      mk_config = Some sample_marketing_config,
                      mk_isRunning = True, monitorInterval = Some 1\<rparr>,
        timers := [(0, TradingTick, 30000), (1, MarketingTick, 86400000)],
        timer_seq := 2\<rparr>"

definition metrics_request :: request where
  "metrics_request =
     \<lparr>url = [V (JStr ''http://localhost:3000''), S ''/api/marketing/metrics''],
      http_method = ''GET'', headers = [], req_body = NoBody\<rparr>"

definition sample_sdk :: MayhemSDK where
  "sample_sdk = \<lparr>wallet = Some ''wallet-1'', mayhemProgram = ''MayhemProgram'',
                 controllerProgram = Some ''ControllerProgram''\<rparr>"

definition sample_llm :: LLMConnector where
  "sample_llm =
     \<lparr>llm_config = \<lparr>provider = ''custom'', apiKey = None, model = None,
                    baseUrl = Some ''http://localhost:8080/llm'',
                    systemPrompt = Some ''Reply in JSON.''\<rparr>,
      conversationHistory = [\<lparr>role = ''system'', content = [S ''Reply in JSON.'']\<rparr>]\<rparr>"

text \<open>The state after \<open>startTrading\<close> on a fresh agent.\<close>

definition started :: state where
  "started = run (sample_world reply_prose None) [StartTrading sample_config]
               (fresh sample_sdk sample_llm ''http://localhost:3000'')"

section \<open>Framing: what a method can and cannot touch\<close>

lemma steps_refl: "steps P s s"
  by (simp add: steps_def)

lemma steps_trans: "steps P s s1 \<Longrightarrow> steps P s1 s2 \<Longrightarrow> steps P s s2"
  by (auto simp: steps_def)

lemma steps_mono: "(\<And>e. P e \<Longrightarrow> P' e) \<Longrightarrow> steps P s s' \<Longrightarrow> steps P' s s'"
  by (auto simp: steps_def list_all_iff)

lemma steps_new_events: "steps P s s' \<Longrightarrow> list_all P (new_events s s')"
  by (auto simp: steps_def new_events_def)

lemma quiet_mono: "(\<And>e. P e \<Longrightarrow> P' e) \<Longrightarrow> quiet P m \<Longrightarrow> quiet P' m"
  unfolding quiet_def using steps_mono by blast

lemma quiet_return: "quiet P (io_return x)"
  by (simp add: quiet_def io_return_def steps_refl)

lemma quiet_throw: "quiet P (io_throw e)"
  by (simp add: quiet_def io_throw_def steps_refl)

lemma quiet_get: "quiet P (io_get f)"
  by (simp add: quiet_def io_get_def steps_refl)

lemma quiet_lift: "quiet P (io_lift r)"
  by (simp add: quiet_def io_lift_def steps_refl)

lemma quiet_emit: "P e \<Longrightarrow> quiet P (emit e)"
  by (simp add: quiet_def emit_def io_modify_def steps_def)

lemma quiet_extern: "P e \<Longrightarrow> quiet P (extern e a)"
  by (simp add: quiet_def extern_def steps_def)

lemma quiet_bind: "quiet P m \<Longrightarrow> (\<And>x. quiet P (f x)) \<Longrightarrow> quiet P (io_bind m f)"
  unfolding quiet_def io_bind_def
proof
  fix s
  assume m: "\<forall>s. steps P s (snd (m s))" and f: "\<And>x. \<forall>s. steps P s (snd (f x s))"
  show "steps P s (snd (case m s of (Inl e, s') \<Rightarrow> (Inl e, s') | (Inr x, s') \<Rightarrow> f x s'))"
  proof (cases "m s")
    case (Pair r s1)
    from m have s1: "steps P s s1" using Pair by (metis snd_conv)
    show ?thesis
    proof (cases r)
      case (Inl e)
      then show ?thesis using Pair s1 by simp
    next
      case (Inr x)
      from f have "steps P s1 (snd (f x s1))" by blast
      then show ?thesis using Pair Inr s1 by (auto intro: steps_trans)
    qed
  qed
qed

lemma quiet_then: "quiet P m \<Longrightarrow> quiet P n \<Longrightarrow> quiet P (io_then m n)"
  by (simp add: io_then_def quiet_bind)

lemma quiet_catch: "quiet P m \<Longrightarrow> (\<And>e. quiet P (h e)) \<Longrightarrow> quiet P (io_catch m h)"
  unfolding quiet_def io_catch_def
proof
  fix s
  assume m: "\<forall>s. steps P s (snd (m s))" and h: "\<And>e. \<forall>s. steps P s (snd (h e s))"
  show "steps P s (snd (case m s of (Inl e, s') \<Rightarrow> h e s' | (Inr x, s') \<Rightarrow> (Inr x, s')))"
  proof (cases "m s")
    case (Pair r s1)
    from m have s1: "steps P s s1" using Pair by (metis snd_conv)
    show ?thesis
    proof (cases r)
      case (Inr x)
      then show ?thesis using Pair s1 by simp
    next
      case (Inl e)
      from h have "steps P s1 (snd (h e s1))" by blast
      then show ?thesis using Pair Inl s1 by (auto intro: steps_trans)
    qed
  qed
qed

lemma quiet_push_history: "quiet P (push_history m)"
  by (simp add: quiet_def push_history_def io_modify_def steps_def)

lemma quiet_forEach: "(\<And>x. quiet P (f x)) \<Longrightarrow> quiet P (io_forEach f xs)"
  by (induction xs) (simp_all add: quiet_return quiet_then)

lemma quiet_if: "(c \<Longrightarrow> quiet P a) \<Longrightarrow> (\<not> c \<Longrightarrow> quiet P b) \<Longrightarrow> quiet P (if c then a else b)"
  by simp

lemma quiet_option:
  "quiet P a \<Longrightarrow> (\<And>y. quiet P (b y)) \<Longrightarrow> quiet P (case x of None \<Rightarrow> a | Some y \<Rightarrow> b y)"
  by (cases x) simp_all

lemma quiet_prod: "(\<And>a b. quiet P (f a b)) \<Longrightarrow> quiet P (case x of (a, b) \<Rightarrow> f a b)"
  by (cases x) simp

lemmas quiet_intros =
  quiet_return quiet_throw quiet_get quiet_lift quiet_bind quiet_then quiet_catch
  quiet_push_history quiet_forEach quiet_if quiet_option quiet_prod

text \<open>Two monad laws, enough to regroup the statements of a block.\<close>

lemma io_bind_assoc: "io_bind (io_bind m f) g = io_bind m (\<lambda>x. io_bind (f x) g)"
  by (auto simp: io_bind_def fun_eq_iff split: prod.splits sum.splits)

lemma parse_total: "\<exists>d. parseTradingResponse w r = Inr d"
  by (auto simp: parseTradingResponse_def res_bind_def res_catch_def split: sum.splits)

lemma steps_bind:
  "steps P s (snd (m s)) \<Longrightarrow>
   (\<And>x s1. m s = (Inr x, s1) \<Longrightarrow> steps P s1 (snd (f x s1))) \<Longrightarrow>
   steps P s (snd (io_bind m f s))"
  by (cases "m s") (auto simp: io_bind_def split: sum.splits intro: steps_trans)

lemma steps_catch:
  "steps P s (snd (m s)) \<Longrightarrow>
   (\<And>e s1. m s = (Inl e, s1) \<Longrightarrow> steps P s1 (snd (h e s1))) \<Longrightarrow>
   steps P s (snd (io_catch m h s))"
  by (cases "m s") (auto simp: io_catch_def split: sum.splits intro: steps_trans)

lemma io_bind_return: "io_bind (io_return x) f = f x"
  by (simp add: io_bind_def io_return_def)

lemma io_bind_Inr:
  "io_bind m f s = (Inr y, s') \<Longrightarrow> \<exists>x s1. m s = (Inr x, s1) \<and> f x s1 = (Inr y, s')"
  by (cases "m s") (auto simp: io_bind_def split: sum.splits)

lemma no_exec_no_buyback: "no_exec e \<Longrightarrow> no_buyback e"
  by (auto simp: no_exec_def no_buyback_def is_execution_def is_buyback_call_def
           split: event.splits sdk_call.splits)

lemmas ev_simps = no_exec_def is_execution_def no_buyback_def is_buyback_call_def

lemma quiet_http: "quiet no_exec (http w req)"
  unfolding http_def by (intro quiet_extern) (simp add: ev_simps)

lemma quiet_getTokenInfo: "quiet no_exec (getTokenInfo w m)"
  unfolding getTokenInfo_def
  by (intro quiet_intros quiet_emit quiet_extern) (simp_all add: ev_simps)

lemma quiet_getTokenPrice: "quiet no_exec (getTokenPrice m)"
  unfolding getTokenPrice_def
  by (intro quiet_intros quiet_emit quiet_extern) (simp_all add: ev_simps)

lemma quiet_getVolume24h: "quiet no_exec (getVolume24h w m)"
  unfolding getVolume24h_def
  by (intro quiet_intros quiet_emit quiet_extern) (simp_all add: ev_simps)

lemma quiet_getMarketData: "quiet no_exec (getMarketData w m)"
  unfolding getMarketData_def
  by (intro quiet_intros quiet_getTokenInfo quiet_getTokenPrice quiet_getVolume24h)

lemma quiet_queryLLM: "quiet no_exec (queryLLM w cp)"
  unfolding queryLLM_def Let_def queryOpenRouter_def queryEliza_def queryOpenAI_def
    queryAnthropic_def queryCustom_def
  by (intro quiet_intros quiet_http)

lemma quiet_decideTrade: "quiet no_exec (decideTrade w md)"
  unfolding decideTrade_def
  by (intro quiet_intros quiet_queryLLM)

lemma quiet_decideMarketing: "quiet no_exec (decideMarketing w b ms)"
  unfolding decideMarketing_def
  by (intro quiet_intros quiet_queryLLM)

lemma quiet_collectFees: "quiet no_exec (collectFees w)"
  unfolding collectFees_def Let_def
  by (intro quiet_intros quiet_emit quiet_extern) (simp_all add: ev_simps)

text \<open>
  \<open>collectFees\<close> ends in \<open>return 0\<close>, so the branch of \<open>checkBuyback\<close> guarded by
  \<open>feeAmount > 0\<close> is dead: the buyback check adds no execution to a tick.
\<close>

lemma collectFees_zero: "collectFees w s = (Inr x, s') \<Longrightarrow> x = 0"
  by (auto simp: collectFees_def Let_def io_bind_def io_then_def io_get_def io_throw_def
        io_return_def emit_def io_modify_def extern_def split: if_splits sum.splits)

lemma quiet_trade: "quiet no_buyback (trade w p)"
  unfolding trade_def Let_def
  by (intro quiet_intros quiet_emit quiet_extern) (simp_all add: ev_simps)

lemma quiet_addLiquidityFromFees: "quiet no_buyback (addLiquidityFromFees w m a)"
  unfolding addLiquidityFromFees_def Let_def
  by (intro quiet_intros quiet_emit quiet_extern) (simp_all add: ev_simps)

lemma quiet_executeDecision: "quiet no_buyback (executeDecision w d)"
  unfolding executeDecision_def executeBuy_def executeSell_def executeBurn_def
  by (intro quiet_intros quiet_emit quiet_trade quiet_addLiquidityFromFees)
     (simp_all add: ev_simps)

lemma quiet_checkBuyback: "quiet no_exec (checkBuyback w md)"
proof -
  have fee: "quiet no_exec
      (io_bind (collectFees w) (\<lambda>feeAmount.
         if 0 < feeAmount then
           io_bind (io_lift (PublicKey_new w (tokenMint cfg))) (\<lambda>mint.
           io_then (buybackAndBurn w \<lparr>bp_tokenMint = mint, solAmount = feeAmount,
                                       bp_burnPercentage = burnPercentage bb\<rparr>)
          (io_return ()))
         else io_return ()))" for cfg :: TradingConfig and bb :: BuybackConfig
    unfolding quiet_def
  proof
    fix s
    show "steps no_exec s (snd (io_bind (collectFees w) (\<lambda>feeAmount.
         if 0 < feeAmount then
           io_bind (io_lift (PublicKey_new w (tokenMint cfg))) (\<lambda>mint.
           io_then (buybackAndBurn w \<lparr>bp_tokenMint = mint, solAmount = feeAmount,
                                       bp_burnPercentage = burnPercentage bb\<rparr>)
          (io_return ()))
         else io_return ()) s))"
    proof (rule steps_bind)
      show "steps no_exec s (snd (collectFees w s))"
        using quiet_collectFees by (simp add: quiet_def)
    next
      fix x s1
      assume "collectFees w s = (Inr x, s1)"
      then have "x = 0" by (rule collectFees_zero)
      then show "steps no_exec s1 (snd ((if 0 < x then
           io_bind (io_lift (PublicKey_new w (tokenMint cfg))) (\<lambda>mint.
           io_then (buybackAndBurn w \<lparr>bp_tokenMint = mint, solAmount = x,
                                       bp_burnPercentage = burnPercentage bb\<rparr>)
          (io_return ()))
         else io_return ()) s1))"
        by (simp add: io_return_def steps_refl)
    qed
  qed
  show ?thesis
    unfolding checkBuyback_def Let_def
    by (intro quiet_intros quiet_emit fee) (simp_all add: ev_simps)
qed

lemma try_stages: "analyzeAndTrade_try w cfg = io_bind (trade_stage w cfg) (buyback_stage w)"
  by (simp add: analyzeAndTrade_try_def trade_stage_def decide_stage_def buyback_stage_def
        io_then_def io_bind_assoc io_bind_return)

lemma quiet_decide_stage: "quiet no_exec (decide_stage w cfg)"
  unfolding decide_stage_def
  by (intro quiet_intros quiet_emit quiet_getMarketData quiet_decideTrade)
     (simp_all add: ev_simps)

lemma quiet_buyback_stage: "quiet no_exec (buyback_stage w md)"
  unfolding buyback_stage_def
  by (intro quiet_intros quiet_checkBuyback)

lemma quiet_trade_stage: "quiet no_buyback (trade_stage w cfg)"
  unfolding trade_stage_def
  by (intro quiet_intros quiet_emit quiet_executeDecision
        quiet_mono [OF no_exec_no_buyback quiet_decide_stage])
     (simp_all add: ev_simps)

lemma quiet_analyzeAndTrade: "quiet no_buyback (analyzeAndTrade w)"
  unfolding analyzeAndTrade_def try_stages
  by (intro quiet_intros quiet_emit quiet_trade_stage
        quiet_mono [OF no_exec_no_buyback quiet_buyback_stage])
     (simp_all add: ev_simps)

text \<open>
  A snapshot exists only if the token mint was accepted by \<open>new PublicKey\<close>, and its
  price is the constant \<open>getTokenPrice\<close> returns.
\<close>

lemma getMarketData_result:
  assumes "getMarketData w m s = (Inr md, s')"
  shows "PublicKey_valid w m \<and> price md = 1 / 10000"
  using assms
  by (auto simp: getMarketData_def io_bind_def io_lift_def PublicKey_new_def io_return_def
        getTokenPrice_def io_then_def emit_def io_modify_def
        split: if_splits sum.splits prod.splits)

lemma decide_stage_result:
  assumes "decide_stage w cfg s = (Inr (md, d), s')"
  shows "PublicKey_valid w (tokenMint cfg) \<and> price md = 1 / 10000"
proof (cases "getMarketData w (tokenMint cfg) s")
  case (Pair r s0)
  show ?thesis
  proof (cases r)
    case (Inl e)
    with Pair assms show ?thesis by (simp add: decide_stage_def io_bind_def)
  next
    case (Inr md0)
    with Pair assms have "md = md0"
      by (auto simp: decide_stage_def io_bind_def io_then_def io_return_def emit_def
            io_modify_def split: sum.splits prod.splits)
    with getMarketData_result [of w "tokenMint cfg" s md0 s0] Pair Inr show ?thesis by simp
  qed
qed

lemma executeDecision_no_amount:
  assumes "\<And>cfg. config (agent s) = Some cfg \<Longrightarrow> PublicKey_valid w (tokenMint cfg)"
    and "amount d = JUndefined"
    and "action d \<in> {JStr ''buy'', JStr ''sell'', JStr ''burn'', JStr ''add_lp''}"
  shows "executeDecision w d s = (Inr (), s)"
  using assms
  by (cases "config (agent s)")
     (auto simp: executeDecision_def io_bind_def io_get_def io_return_def io_lift_def
        PublicKey_new_def)

lemma quiet_any: "quiet P m \<Longrightarrow> quiet any_event m"
  by (rule quiet_mono [of P]) (simp add: any_event_def)

lemma quiet_buybackAndBurn: "quiet any_event (buybackAndBurn w p)"
  unfolding buybackAndBurn_def
  by (intro quiet_intros quiet_emit quiet_any [OF quiet_trade]) (simp_all add: any_event_def)

lemma collectFees_trace:
  "\<exists>evs. trace (snd (collectFees w s)) = trace s @ SdkCall CollectFees # evs"
  by (auto simp: collectFees_def Let_def io_bind_def io_then_def io_get_def io_throw_def
        io_return_def emit_def io_modify_def extern_def split: sum.splits)

lemma trace_prefix_bind:
  assumes "\<exists>evs. trace (snd (m s)) = trace s @ pre @ evs"
    and "\<And>x. quiet any_event (f x)"
  shows "\<exists>evs. trace (snd (io_bind m f s)) = trace s @ pre @ evs"
proof (cases "m s")
  case (Pair r s1)
  from assms(1) Pair obtain evs where evs: "trace s1 = trace s @ pre @ evs" by auto
  show ?thesis
  proof (cases r)
    case (Inl e)
    with Pair evs show ?thesis by (simp add: io_bind_def)
  next
    case (Inr x)
    from assms(2) have "steps any_event s1 (snd (f x s1))" by (simp add: quiet_def)
    then obtain more where "trace (snd (f x s1)) = trace s1 @ more"
      by (auto simp: steps_def)
    with Pair Inr evs show ?thesis by (simp add: io_bind_def)
  qed
qed

lemma checkBuyback_triggered:
  assumes "config (agent s) = Some cfg" and "buybackConfig (agent s) = Some bb"
    and "triggerPrice bb = Some t" and "t \<noteq> 0" and "price md < t"
  shows "\<exists>evs. trace (snd (checkBuyback w md s)) =
           trace s @ ConsoleLog [S ''Buyback triggered!''] # SdkCall CollectFees # evs"
proof -
  let ?k = "\<lambda>feeAmount.
         if 0 < feeAmount then
           io_bind (io_lift (PublicKey_new w (tokenMint cfg))) (\<lambda>mint.
           io_then (buybackAndBurn w \<lparr>bp_tokenMint = mint, solAmount = feeAmount,
                                       bp_burnPercentage = burnPercentage bb\<rparr>)
          (io_return ()))
         else io_return ()"
  let ?s1 = "s\<lparr>trace := trace s @ [ConsoleLog [S ''Buyback triggered!'']]\<rparr>"
  have eq: "checkBuyback w md s = io_bind (collectFees w) ?k ?s1"
    using assms
    by (simp add: checkBuyback_def Let_def io_bind_def io_get_def io_then_def emit_def
          io_modify_def)
  have k: "quiet any_event (?k x)" for x
    by (intro quiet_intros quiet_buybackAndBurn)
  have "\<exists>evs. trace (snd (collectFees w ?s1)) = trace ?s1 @ [SdkCall CollectFees] @ evs"
    using collectFees_trace [of w ?s1] by simp
  then have "\<exists>evs. trace (snd (io_bind (collectFees w) ?k ?s1)) =
               trace ?s1 @ [SdkCall CollectFees] @ evs"
    using k by (rule trace_prefix_bind)
  then show ?thesis
    unfolding eq by simp
qed

lemma trade_stage_result:
  assumes "trade_stage w cfg s = (Inr md, s')"
  shows "price md = 1 / 10000"
proof (cases "decide_stage w cfg s")
  case (Pair r s0)
  show ?thesis
  proof (cases r)
    case (Inl e)
    with Pair assms show ?thesis by (simp add: trade_stage_def io_bind_def)
  next
    case (Inr p)
    obtain md0 d0 where p: "p = (md0, d0)" by (cases p)
    with Pair Inr assms have "md = md0"
      by (auto simp: trade_stage_def io_bind_def io_then_def io_return_def
            split: sum.splits prod.splits)
    with decide_stage_result [of w cfg s md0 d0 s0] Pair Inr p show ?thesis by simp
  qed
qed

lemma quiet_fetchPlatformMetrics: "quiet no_exec (fetchPlatformMetrics w)"
  unfolding fetchPlatformMetrics_def
  by (intro quiet_intros quiet_http)

lemma quiet_executeAllocation: "quiet no_exec (executeAllocation w a)"
  unfolding executeAllocation_def
  by (intro quiet_intros quiet_emit quiet_http) (simp_all add: ev_simps)

lemma quiet_trackPerformance: "quiet no_exec (trackPerformance w a)"
  unfolding trackPerformance_def
  by (intro quiet_intros quiet_http)

lemma quiet_analyzeAndAllocate_try: "quiet no_exec (analyzeAndAllocate_try w cfg)"
  unfolding analyzeAndAllocate_try_def
  by (intro quiet_intros quiet_emit quiet_fetchPlatformMetrics quiet_decideMarketing
        quiet_executeAllocation quiet_trackPerformance)
     (simp_all add: ev_simps)

lemma quiet_analyzeAndAllocate: "quiet no_exec (analyzeAndAllocate w)"
  unfolding analyzeAndAllocate_def
  by (intro quiet_intros quiet_emit quiet_analyzeAndAllocate_try) (simp_all add: ev_simps)

lemma catch_log_returns:
  "fst (io_catch m (\<lambda>error. emit (ConsoleError l error)) s) = Inr () \<and>
   (m s = (Inl e, s1) \<longrightarrow>
      io_catch m (\<lambda>error. emit (ConsoleError l error)) s =
        (Inr (), s1\<lparr>trace := trace s1 @ [ConsoleError l e]\<rparr>))"
  by (cases "m s") (auto simp: io_catch_def emit_def io_modify_def split: sum.splits)

lemma analyzeAndTrade_returns: "fst (analyzeAndTrade w s) = Inr ()"
  using catch_log_returns [of "analyzeAndTrade_try w c" "''Trading error:''" s for c]
  by (cases "config (agent s)")
     (simp_all add: analyzeAndTrade_def io_bind_def io_get_def io_return_def)

lemma analyzeAndAllocate_returns: "fst (analyzeAndAllocate w s) = Inr ()"
  using catch_log_returns [of "analyzeAndAllocate_try w c" "''Marketing error:''" s for c]
  by (cases "mk_config (marketing s)")
     (simp_all add: analyzeAndAllocate_def io_bind_def io_get_def io_return_def)

lemma buybackAndBurn_run:
  assumes "wallet (sdk s) = Some key" and "controllerProgram (sdk s) = Some c"
  shows "buybackAndBurn w params s =
    (let tx = \<lparr>instructions = [], signers = [Some key], skipPreflight = Some False\<rparr>;
         tp = \<lparr>tp_tokenMint = bp_tokenMint params, tp_amount = JNum (solAmount params),
               tp_side = Buy, tp_slippage = None\<rparr>;
         pre = [SdkCall (BuybackAndBurn params),
                ConsoleLog [S ''Buyback: '', V (JNum (solAmount params)), S '' SOL -> '',
                            V (JNum (bp_burnPercentage params)), S ''% burn''],
                SdkCall (Trade tp),
                ConsoleLog [S ''BUY'', S '': '', V (JNum (solAmount params)), S '' tokens''],
                Rpc (SendTransaction tx)]
     in case rpc_sendTransaction w (length (trace s) + 4) tx of
          Inl e \<Rightarrow> (Inl e, s\<lparr>trace := trace s @ pre\<rparr>)
        | Inr sg \<Rightarrow>
           (case rpc_confirmTransaction w (length (trace s) + 5) sg of
              Inl e \<Rightarrow> (Inl e, s\<lparr>trace := trace s @ pre @ [Rpc (ConfirmTransaction sg)]\<rparr>)
            | Inr u \<Rightarrow>
               (Inr sg, s\<lparr>trace := trace s @ pre @
                    [Rpc (ConfirmTransaction sg), ConsoleLog [S ''Trade executed:'', V (JStr sg)]] @
                    (if 0 < bp_burnPercentage params
                     then [ConsoleLog [S ''Burning '', V (JNum (bp_burnPercentage params)),
                                       S ''% of bought tokens'']]
                     else [])\<rparr>)))"
proof -
  have idx: "Suc (Suc (Suc (Suc n))) = n + 4" "Suc (Suc (Suc (Suc (Suc n)))) = n + 5" for n
    by simp_all
  show ?thesis
    using assms
    by (simp add: buybackAndBurn_def trade_def Let_def io_bind_def io_then_def io_get_def
          io_throw_def io_return_def emit_def io_modify_def extern_def toUpperCase_side_def
          idx split: sum.splits)
qed

text \<open>The two-state machine: every call keeps the invariant.\<close>

lemma steps_timers_ok: "steps P s s' \<Longrightarrow> timers_ok s \<Longrightarrow> timers_ok s'"
  by (simp add: steps_def timers_ok_def trading_timers_def)

lemma filter_swap: "filter P (filter Q ts) = filter Q (filter P ts)"
  by (induction ts) auto

lemma drop_handle:
  assumes "filter (\<lambda>t. fst (snd t) = TradingTick) ts = [(h, cb, ms)]"
  shows "filter (\<lambda>t. fst (snd t) = TradingTick) (filter (\<lambda>t. fst t \<noteq> h) ts) = []"
proof -
  have "filter (\<lambda>t. fst (snd t) = TradingTick) (filter (\<lambda>t. fst t \<noteq> h) ts) =
        filter (\<lambda>t. fst t \<noteq> h) (filter (\<lambda>t. fst (snd t) = TradingTick) ts)"
    by (rule filter_swap)
  with assms show ?thesis by simp
qed

lemma steps_phase: "steps P s s' \<Longrightarrow> phase_of s' = phase_of s"
  by (simp add: steps_def phase_of_def)

lemma startTrading_running:
  "isRunning (agent s) \<Longrightarrow> startTrading w cfg s = (Inl (Error ''Agent already running''), s)"
  by (simp add: startTrading_def io_bind_def io_get_def io_throw_def)

lemma startTrading_idle:
  assumes "\<not> isRunning (agent s)"
  shows "startTrading w cfg s =
     analyzeAndTrade w
       (s\<lparr>trace := trace s @ [ConsoleLog [S ''Starting '', V (JStr (strategy cfg)),
                                          S '' trading for '', V (JStr (tokenMint cfg))]],
          timers := timers s @ [(timer_seq s, TradingTick, 30000)],
          timer_seq := Suc (timer_seq s),
          agent := (agent s)\<lparr>config := Some cfg, isRunning := True,
                               checkInterval := Some (timer_seq s)\<rparr>\<rparr>)"
  using assms
  by (simp add: startTrading_def io_bind_def io_then_def io_get_def io_modify_def emit_def
        setInterval_def)

lemma startMarketing_running:
  "mk_isRunning (marketing s) \<Longrightarrow>
   startMarketing w cfg s = (Inl (Error ''Marketing agent already running''), s)"
  by (simp add: startMarketing_def io_bind_def io_get_def io_throw_def)

lemma startMarketing_idle:
  assumes "\<not> mk_isRunning (marketing s)"
  shows "startMarketing w cfg s =
     analyzeAndAllocate w
       (s\<lparr>trace := trace s @ [ConsoleLog [S ''Starting AI marketing with $'',
                                          V (JNum (totalBudget cfg)), S '' budget'']],
          timers := timers s @ [(timer_seq s, MarketingTick,
                                 rebalanceInterval cfg * 60 * 60 * 1000)],
          timer_seq := Suc (timer_seq s),
          marketing := (marketing s)\<lparr>mk_config := Some cfg, mk_isRunning := True,
                                       monitorInterval := Some (timer_seq s)\<rparr>\<rparr>)"
  using assms
  by (simp add: startMarketing_def io_bind_def io_then_def io_get_def io_modify_def emit_def
        setInterval_def)

lemma stopTrading_state:
  "stopTrading s =
     (Inr (), s\<lparr>agent := (agent s)\<lparr>checkInterval := None, isRunning := False\<rparr>,
               timers := (case checkInterval (agent s) of
                            None \<Rightarrow> timers s
                          | Some h \<Rightarrow> filter (\<lambda>t. fst t \<noteq> h) (timers s)),
               trace := trace s @ [ConsoleLog [S ''Trading stopped'']]\<rparr>)"
  by (cases "checkInterval (agent s)")
     (simp_all add: stopTrading_def io_bind_def io_then_def io_get_def io_modify_def emit_def
        io_return_def clearInterval_def)

lemma stopMarketing_state:
  "stopMarketing s =
     (Inr (), s\<lparr>marketing := (marketing s)\<lparr>monitorInterval := None, mk_isRunning := False\<rparr>,
               timers := (case monitorInterval (marketing s) of
                            None \<Rightarrow> timers s
                          | Some h \<Rightarrow> filter (\<lambda>t. fst t \<noteq> h) (timers s)),
               trace := trace s @ [ConsoleLog [S ''Marketing automation stopped'']]\<rparr>)"
  by (cases "monitorInterval (marketing s)")
     (simp_all add: stopMarketing_def io_bind_def io_then_def io_get_def io_modify_def emit_def
        io_return_def clearInterval_def)

lemma tick_steps:
  "steps any_event s (snd (analyzeAndTrade w s))"
  "steps any_event s (snd (analyzeAndAllocate w s))"
  using quiet_any [OF quiet_analyzeAndTrade] quiet_any [OF quiet_analyzeAndAllocate]
  by (simp_all add: quiet_def)

lemma fire_steps: "steps any_event s (snd (fire w h s))"
  using tick_steps [of s w]
  by (auto simp: fire_def io_bind_def io_get_def io_return_def steps_refl
        split: option.splits callback.splits)

lemma perform_timers_ok:
  assumes "timers_ok s"
  shows "timers_ok (snd (perform w c s))"
proof (cases c)
  case (StartTrading cfg)
  show ?thesis
  proof (cases "isRunning (agent s)")
    case True
    with StartTrading assms show ?thesis
      by (simp add: perform_def startTrading_running)
  next
    case False
    let ?s1 = "s\<lparr>trace := trace s @ [ConsoleLog [S ''Starting '', V (JStr (strategy cfg)),
                                          S '' trading for '', V (JStr (tokenMint cfg))]],
          timers := timers s @ [(timer_seq s, TradingTick, 30000)],
          timer_seq := Suc (timer_seq s),
          agent := (agent s)\<lparr>config := Some cfg, isRunning := True,
                               checkInterval := Some (timer_seq s)\<rparr>\<rparr>"
    from False assms have "timers_ok ?s1"
      by (auto simp: timers_ok_def trading_timers_def split: option.splits)
    then have "timers_ok (snd (analyzeAndTrade w ?s1))"
      using tick_steps(1) steps_timers_ok by blast
    with StartTrading False show ?thesis
      by (simp add: perform_def startTrading_idle)
  qed
next
  case StopTrading
  with assms show ?thesis
    by (auto simp: perform_def stopTrading_state timers_ok_def trading_timers_def
          drop_handle simp del: filter_filter split: option.splits)
next
  case (EnableBuybackBurn cfg)
  with assms show ?thesis
    by (simp add: perform_def enableBuybackBurn_def io_then_def io_bind_def io_modify_def
          emit_def timers_ok_def trading_timers_def)
next
  case (StartMarketing cfg)
  show ?thesis
  proof (cases "mk_isRunning (marketing s)")
    case True
    with StartMarketing assms show ?thesis
      by (simp add: perform_def startMarketing_running)
  next
    case False
    let ?s1 = "s\<lparr>trace := trace s @ [ConsoleLog [S ''Starting AI marketing with $'',
                                          V (JNum (totalBudget cfg)), S '' budget'']],
          timers := timers s @ [(timer_seq s, MarketingTick,
                                 rebalanceInterval cfg * 60 * 60 * 1000)],
          timer_seq := Suc (timer_seq s),
          marketing := (marketing s)\<lparr>mk_config := Some cfg, mk_isRunning := True,
                                       monitorInterval := Some (timer_seq s)\<rparr>\<rparr>"
    from assms have "timers_ok ?s1"
      by (auto simp: timers_ok_def trading_timers_def split: option.splits)
    then have "timers_ok (snd (analyzeAndAllocate w ?s1))"
      using tick_steps(2) steps_timers_ok by blast
    with StartMarketing False show ?thesis
      by (simp add: perform_def startMarketing_idle)
  qed
next
  case StopMarketing
  have keep: "filter (\<lambda>t. fst (snd t) = TradingTick) (filter (\<lambda>t. fst t \<noteq> h) (timers s)) =
              trading_timers s"
    if "checkInterval (agent s) \<noteq> Some h" for h
  proof -
    have "filter (\<lambda>t. fst (snd t) = TradingTick) (filter (\<lambda>t. fst t \<noteq> h) (timers s)) =
          filter (\<lambda>t. fst t \<noteq> h) (trading_timers s)"
      unfolding trading_timers_def by (rule filter_swap)
    also have "\<dots> = trading_timers s"
      using assms that by (auto simp: timers_ok_def split: option.splits)
    finally show ?thesis .
  qed
  show ?thesis
  proof (cases "monitorInterval (marketing s)")
    case None
    with StopMarketing assms show ?thesis
      by (simp add: perform_def stopMarketing_state timers_ok_def trading_timers_def)
  next
    case (Some h)
    with assms have "checkInterval (agent s) \<noteq> Some h"
      by (simp add: timers_ok_def)
    from keep [OF this] StopMarketing Some assms show ?thesis
      by (simp add: perform_def stopMarketing_state timers_ok_def trading_timers_def
            del: filter_filter)
  qed
next
  case (TimerFires h)
  with assms fire_steps [of s w h] show ?thesis
    by (simp add: perform_def steps_timers_ok)
qed

lemma run_timers_ok: "timers_ok s \<Longrightarrow> timers_ok (run w cs s)"
  by (induction cs arbitrary: s) (simp_all add: perform_timers_ok)

lemma fresh_timers_ok: "timers_ok (fresh sd l u)"
  by (simp add: fresh_def timers_ok_def trading_timers_def)

lemma perform_phase:
  assumes "phase_of (snd (perform w c s)) \<noteq> phase_of s"
  shows "(phase_of s = Idle \<and> (\<exists>cfg. c = StartTrading cfg)) \<or>
         (phase_of s = Running \<and> c = StopTrading)"
proof (cases c)
  case (StartTrading cfg)
  with assms show ?thesis
    by (cases "isRunning (agent s)") (auto simp: perform_def startTrading_running phase_of_def)
next
  case StopTrading
  with assms show ?thesis
    by (auto simp: perform_def stopTrading_state phase_of_def split: if_splits)
next
  case (EnableBuybackBurn cfg)
  with assms show ?thesis
    by (simp add: perform_def enableBuybackBurn_def io_then_def io_bind_def io_modify_def
          emit_def phase_of_def)
next
  case (StartMarketing cfg)
  show ?thesis
  proof (cases "mk_isRunning (marketing s)")
    case True
    with StartMarketing assms show ?thesis
      by (simp add: perform_def startMarketing_running)
  next
    case False
    with StartMarketing assms tick_steps(2) show ?thesis
      by (simp add: perform_def startMarketing_idle steps_def phase_of_def)
  qed
next
  case StopMarketing
  with assms show ?thesis
    by (simp add: perform_def stopMarketing_state phase_of_def)
next
  case (TimerFires h)
  with assms fire_steps [of s w h] show ?thesis
    by (simp add: perform_def steps_def phase_of_def)
qed

text \<open>Unfolding sets for evaluating a run in a sample world.\<close>

lemmas io_defs = io_return_def io_throw_def io_bind_def io_then_def io_catch_def io_get_def
  io_modify_def io_lift_def emit_def extern_def http_def res_bind_def res_catch_def

lemmas sample_defs = sample_world_def sample_state_def sample_config_def sample_buyback_def
  sample_account_def sample_arith_def sample_mint_def llm_body_def json_quote_def
  sample_snapshot_def

lemmas model_defs = getMarketData_def getTokenInfo_def getTokenPrice_def getVolume24h_def
  PublicKey_new_def decideTrade_def buildTradingPrompt_def queryLLM_def queryCustom_def
  parseTradingResponse_def push_history_def ToString_def ToNumber_def js_gt_def opt_str_def

lemmas reply_defs = reply_prose_def reply_wild_def fields_wild_def reply_buy_high_def
  parsed_buy_high_def reply_buy_bare_def parsed_buy_bare_def reply_buy_low_def
  parsed_buy_low_def

lemmas tick_defs = decide_stage_def trade_stage_def analyzeAndTrade_def
  analyzeAndTrade_try_def executeDecision_def executeBuy_def trade_def checkBuyback_def
  collectFees_def new_events_def Let_def

lemmas decision_defs = decision_low_def decision_high_def decision_bare_def

lemma sample_decide_low:
  "fst (decide_stage (sample_world reply_buy_low (Some parsed_buy_low)) sample_config
          (sample_state (Some ''wallet-1'') (Some sample_buyback))) =
   Inr (sample_snapshot, decision_low)"
  by (simp add: decide_stage_def model_defs io_defs sample_defs reply_defs decision_defs)

lemma sample_trade_stage_prose:
  "fst (trade_stage (sample_world reply_prose None) sample_config
          (sample_state None (Some sample_buyback))) = Inr sample_snapshot"
  by (simp add: tick_defs model_defs io_defs sample_defs reply_defs)

lemma sample_decide_bare:
  "fst (decide_stage (sample_world reply_buy_bare (Some parsed_buy_bare)) sample_config
          (sample_state (Some ''wallet-1'') None)) =
   Inr (sample_snapshot, decision_bare)"
  by (simp add: decide_stage_def model_defs io_defs sample_defs reply_defs decision_defs)

section \<open>Properties stated by the specification\<close>

text \<open>
  C1. For every reply text that is not valid JSON, \<open>parseTradingResponse\<close> returns the
  record \<open>{action: 'hold', confidence: 0.5, reasoning: <the reply>}\<close>. The result is a
  value (\<open>Inr\<close>), never an error: the parse failure does not reach the caller.
\<close>

theorem parse_fallback:
  "JSON_parse w t = Inl e \<Longrightarrow>
   parseTradingResponse w (JStr t) =
     Inr \<lparr>action = JStr ''hold'', amount = JUndefined, reasoning = JStr t,
          confidence = JNum (5 / 10)\<rparr>"
  by (simp add: parseTradingResponse_def ToString_def res_bind_def res_catch_def)

theorem parse_fallback_witness:
  "JSON_parse (sample_world reply_prose None) reply_prose = Inl SyntaxError \<and>
   parseTradingResponse (sample_world reply_prose None) (JStr reply_prose) =
     Inr \<lparr>action = JStr ''hold'', amount = JUndefined, reasoning = JStr reply_prose,
          confidence = JNum (5 / 10)\<rparr>"
proof -
  have h: "JSON_parse (sample_world reply_prose None) reply_prose = Inl SyntaxError"
    by (simp add: sample_defs reply_defs)
  show ?thesis using h parse_fallback [OF h] by simp
qed

text \<open>
  C7. For every reply text that is valid JSON and carries a \<open>confidence\<close> field, the
  parser returns that value as it is, whatever it is (no clamping to the unit interval),
  and likewise the \<open>action\<close>, \<open>amount\<close> and \<open>reasoning\<close> fields, with \<open>undefined\<close> for
  a field the document lacks (no check that the action is one of the five).
\<close>

theorem parse_verbatim:
  "JSON_parse w t = Inr (JObj fs) \<Longrightarrow> map_of fs ''confidence'' = Some c \<Longrightarrow>
   parseTradingResponse w (JStr t) =
     Inr \<lparr>action = (case map_of fs ''action'' of None \<Rightarrow> JUndefined | Some a \<Rightarrow> a),
          amount = (case map_of fs ''amount'' of None \<Rightarrow> JUndefined | Some a \<Rightarrow> a),
          reasoning = (case map_of fs ''reasoning'' of None \<Rightarrow> JUndefined | Some a \<Rightarrow> a),
          confidence = c\<rparr>"
  by (simp add: parseTradingResponse_def ToString_def res_bind_def res_catch_def)

theorem parse_verbatim_witness:
  "JSON_parse (sample_world reply_wild (Some (JObj fields_wild))) reply_wild =
     Inr (JObj fields_wild) \<and>
   map_of fields_wild ''confidence'' = Some (JNum (15 / 10)) \<and>
   parseTradingResponse (sample_world reply_wild (Some (JObj fields_wild))) (JStr reply_wild) =
     Inr \<lparr>action = JStr ''moon'', amount = JUndefined, reasoning = JStr ''yolo'',
          confidence = JNum (15 / 10)\<rparr>"
proof -
  have h: "JSON_parse (sample_world reply_wild (Some (JObj fields_wild))) reply_wild =
             Inr (JObj fields_wild)"
    by (simp add: sample_defs reply_defs)
  have c: "map_of fields_wild ''confidence'' = Some (JNum (15 / 10))"
    by (simp add: fields_wild_def)
  show ?thesis using h c parse_verbatim [OF h c] by (simp add: fields_wild_def)
qed

text \<open>
  C2, as stated, asks that constructing the connector with a provider outside the five
  fails. The constructor never reads the provider: with the provider \<open>gemini\<close> it
  returns the connector.
\<close>

theorem constructor_accepts_any_provider:
  "provider gemini_config \<notin> set supported_providers \<and>
   LLMConnector_constructor gemini_config =
     Inr \<lparr>llm_config = gemini_config,
          conversationHistory =
            [\<lparr>role = ''system'', content = [S getDefaultSystemPrompt]\<rparr>]\<rparr>"
  by (simp add: gemini_config_def supported_providers_def LLMConnector_constructor_def
        or_else_def)

text \<open>
  C2, amended. For every provider outside the five, constructing the connector succeeds
  and stores the configuration unchecked; querying it (\<open>queryLLM\<close>) fails with
  \<open>Unsupported provider: <provider>\<close> and leaves the state as it was, so no request
  was sent.
\<close>

theorem unsupported_provider:
  assumes "provider cfg \<notin> set supported_providers" and "llm_config (llm s) = cfg"
  shows "LLMConnector_constructor cfg =
           Inr \<lparr>llm_config = cfg,
                conversationHistory =
                  [\<lparr>role = ''system'',
                    content = [S (or_else (systemPrompt cfg) getDefaultSystemPrompt)]\<rparr>]\<rparr> \<and>
         queryLLM w cp s = (Inl (Error (''Unsupported provider: '' @ provider cfg)), s)"
  using assms
  by (simp add: LLMConnector_constructor_def queryLLM_def supported_providers_def io_bind_def
        io_get_def io_throw_def Let_def)

theorem unsupported_provider_witness:
  "provider gemini_config \<notin> set supported_providers \<and>
   queryLLM (sample_world reply_prose None) None
     ((sample_state None None)\<lparr>llm := \<lparr>llm_config = gemini_config, conversationHistory = []\<rparr>\<rparr>) =
     (Inl (Error ''Unsupported provider: gemini''),
      (sample_state None None)\<lparr>llm := \<lparr>llm_config = gemini_config, conversationHistory = []\<rparr>\<rparr>)"
proof -
  have h: "provider gemini_config \<notin> set supported_providers"
    by (simp add: gemini_config_def supported_providers_def)
  have c: "llm_config (llm ((sample_state None None)
             \<lparr>llm := \<lparr>llm_config = gemini_config, conversationHistory = []\<rparr>\<rparr>)) = gemini_config"
    by simp
  show ?thesis
    using h unsupported_provider [OF h c, of "sample_world reply_prose None" None]
    by (simp add: gemini_config_def)
qed

text \<open>
  C3. In every state reachable from a fresh agent: \<open>startTrading\<close> on a running agent
  fails with \<open>Agent already running\<close> and changes nothing (no second timer); the event
  loop holds one trading timer when the agent runs and none when it does not;
  \<open>startTrading\<close> on an idle agent returns, leaves it running with exactly the timer
  just created; \<open>stopTrading\<close> leaves it idle without a trading timer; and a call
  changes the phase only as Idle \<open>\<rightarrow>\<close> Running by a start or Running \<open>\<rightarrow>\<close> Idle by a stop.
\<close>

theorem start_twice_fails:
  assumes "s = run w cs (fresh sd l u)"
  shows "(isRunning (agent s) \<longrightarrow>
            startTrading w cfg s = (Inl (Error ''Agent already running''), s)) \<and>
         length (trading_timers s) = (if isRunning (agent s) then 1 else 0) \<and>
         (\<not> isRunning (agent s) \<longrightarrow>
            fst (startTrading w cfg s) = Inr () \<and>
            phase_of (snd (startTrading w cfg s)) = Running \<and>
            trading_timers (snd (startTrading w cfg s)) = [(timer_seq s, TradingTick, 30000)]) \<and>
         phase_of (snd (stopTrading s)) = Idle \<and>
         trading_timers (snd (stopTrading s)) = [] \<and>
         (phase_of (snd (perform w c s)) \<noteq> phase_of s \<longrightarrow>
            (phase_of s = Idle \<and> (\<exists>cfg. c = StartTrading cfg)) \<or>
            (phase_of s = Running \<and> c = StopTrading))"
proof -
  have ok: "timers_ok s"
    unfolding assms by (rule run_timers_ok [OF fresh_timers_ok])
  have count: "length (trading_timers s) = (if isRunning (agent s) then 1 else 0)"
    using ok by (auto simp: timers_ok_def split: option.splits)
  have start: "fst (startTrading w cfg s) = Inr () \<and>
            phase_of (snd (startTrading w cfg s)) = Running \<and>
            trading_timers (snd (startTrading w cfg s)) = [(timer_seq s, TradingTick, 30000)]"
    if idle: "\<not> isRunning (agent s)"
  proof -
    let ?s1 = "s\<lparr>trace := trace s @ [ConsoleLog [S ''Starting '', V (JStr (strategy cfg)),
                                          S '' trading for '', V (JStr (tokenMint cfg))]],
          timers := timers s @ [(timer_seq s, TradingTick, 30000)],
          timer_seq := Suc (timer_seq s),
          agent := (agent s)\<lparr>config := Some cfg, isRunning := True,
                               checkInterval := Some (timer_seq s)\<rparr>\<rparr>"
    have eq: "startTrading w cfg s = analyzeAndTrade w ?s1"
      using idle by (rule startTrading_idle)
    have tt: "trading_timers ?s1 = [(timer_seq s, TradingTick, 30000)]"
      using ok idle by (auto simp: timers_ok_def trading_timers_def split: option.splits)
    have st: "steps any_event ?s1 (snd (analyzeAndTrade w ?s1))"
      by (rule tick_steps)
    have r: "fst (analyzeAndTrade w ?s1) = Inr ()"
      by (rule analyzeAndTrade_returns)
    from st have "phase_of (snd (analyzeAndTrade w ?s1)) = Running"
      by (simp add: steps_def phase_of_def)
    moreover from st tt have
      "trading_timers (snd (analyzeAndTrade w ?s1)) = [(timer_seq s, TradingTick, 30000)]"
      by (simp add: steps_def trading_timers_def)
    ultimately show ?thesis using r eq by simp
  qed
  have stop: "phase_of (snd (stopTrading s)) = Idle \<and> trading_timers (snd (stopTrading s)) = []"
    using ok
    by (auto simp: stopTrading_state phase_of_def timers_ok_def trading_timers_def
          drop_handle simp del: filter_filter split: option.splits)
  show ?thesis
    using startTrading_running [of s w cfg] count start stop perform_phase [of w c s]
    by blast
qed

theorem start_twice_fails_witness:
  "\<not> isRunning (agent (fresh sample_sdk sample_llm ''http://localhost:3000'')) \<and>
   isRunning (agent started) \<and>
   startTrading (sample_world reply_prose None) sample_config started =
     (Inl (Error ''Agent already running''), started) \<and>
   length (trading_timers started) = 1 \<and>
   phase_of started = Running \<and>
   phase_of (snd (perform (sample_world reply_prose None) StopTrading started)) = Idle"
proof -
  let ?w = "sample_world reply_prose None"
  let ?s0 = "fresh sample_sdk sample_llm ''http://localhost:3000''"
  have idle: "\<not> isRunning (agent ?s0)"
    by (simp add: fresh_def)
  have s0: "?s0 = run ?w [] ?s0"
    by simp
  have st: "started = snd (startTrading ?w sample_config ?s0)"
    by (simp add: started_def perform_def)
  from start_twice_fails [OF s0, of sample_config "StartTrading sample_config"] idle
  have "phase_of (snd (startTrading ?w sample_config ?s0)) = Running"
    by simp
  with st have run: "isRunning (agent started)"
    by (simp add: phase_of_def split: if_splits)
  have s1: "started = run ?w [StartTrading sample_config] ?s0"
    by (simp add: started_def)
  from start_twice_fails [OF s1, of sample_config StopTrading] run
  show ?thesis
    using idle by (simp add: phase_of_def perform_def)
qed

text \<open>
  C4. In every trading tick whose decision has a confidence that is not greater than
  0.7 (as \<open>>\<close> compares it), no event of the tick is an execution: no trade, no
  liquidity call, no buyback call and none of the buy, sell or burn dispatches,
  whatever the action of the decision.
\<close>

theorem low_confidence_no_execution:
  assumes "config (agent s) = Some cfg"
    and "fst (decide_stage w cfg s) = Inr (md, d)"
    and "\<not> js_gt w (confidence d) (7 / 10)"
  shows "\<forall>e \<in> set (new_events s (snd (analyzeAndTrade w s))). \<not> is_execution e"
proof -
  have eq: "analyzeAndTrade w s =
      io_catch (io_bind (trade_stage w cfg) (buyback_stage w))
        (\<lambda>error. emit (ConsoleError ''Trading error:'' error)) s"
    using assms(1) by (simp add: analyzeAndTrade_def io_bind_def io_get_def try_stages)
  have d: "steps no_exec s (snd (decide_stage w cfg s))"
    using quiet_decide_stage by (simp add: quiet_def)
  have t: "steps no_exec s (snd (trade_stage w cfg s))"
    unfolding trade_stage_def
  proof (rule steps_bind)
    show "steps no_exec s (snd (decide_stage w cfg s))" by (rule d)
  next
    fix x s2
    assume "decide_stage w cfg s = (Inr x, s2)"
    with assms(2) have x: "x = (md, d)" by simp
    have "quiet no_exec (io_then (emit (ConsoleLog [S ''Low confidence - skipping trade'']))
            (io_return md))"
      by (intro quiet_intros quiet_emit) (simp add: ev_simps)
    then show "steps no_exec s2
        (snd ((case x of (marketData, decision) \<Rightarrow>
          io_then (if js_gt w (confidence decision) (7 / 10)
                   then executeDecision w decision
                   else emit (ConsoleLog [S ''Low confidence - skipping trade'']))
            (io_return marketData)) s2))"
      using x assms(3) by (simp add: quiet_def)
  qed
  have "steps no_exec s (snd (io_bind (trade_stage w cfg) (buyback_stage w) s))"
  proof (rule steps_bind)
    show "steps no_exec s (snd (trade_stage w cfg s))" by (rule t)
  next
    fix x s2
    show "steps no_exec s2 (snd (buyback_stage w x s2))"
      using quiet_buyback_stage by (simp add: quiet_def)
  qed
  then have "steps no_exec s (snd (analyzeAndTrade w s))"
    unfolding eq
  proof (rule steps_catch)
    fix e s2
    have "quiet no_exec (emit (ConsoleError ''Trading error:'' e))"
      by (intro quiet_emit) (simp add: ev_simps)
    then show "steps no_exec s2 (snd (emit (ConsoleError ''Trading error:'' e) s2))"
      by (simp add: quiet_def)
  qed
  then have "list_all no_exec (new_events s (snd (analyzeAndTrade w s)))"
    by (rule steps_new_events)
  then show ?thesis
    by (simp add: list_all_iff no_exec_def)
qed

theorem low_confidence_no_execution_witness:
  "fst (decide_stage (sample_world reply_buy_low (Some parsed_buy_low)) sample_config
          (sample_state (Some ''wallet-1'') (Some sample_buyback))) =
     Inr (sample_snapshot, decision_low) \<and>
   \<not> js_gt (sample_world reply_buy_low (Some parsed_buy_low)) (confidence decision_low) (7 / 10) \<and>
   filter is_execution
     (new_events (sample_state (Some ''wallet-1'') (Some sample_buyback))
        (snd (analyzeAndTrade (sample_world reply_buy_low (Some parsed_buy_low))
           (sample_state (Some ''wallet-1'') (Some sample_buyback))))) = []"
proof -
  have c: "config (agent (sample_state (Some ''wallet-1'') (Some sample_buyback))) =
             Some sample_config"
    by (simp add: sample_state_def)
  have g: "\<not> js_gt (sample_world reply_buy_low (Some parsed_buy_low))
             (confidence decision_low) (7 / 10)"
    by (simp add: js_gt_def ToNumber_def decision_low_def)
  show ?thesis
    using sample_decide_low g low_confidence_no_execution [OF c sample_decide_low g]
    by (simp add: filter_empty_conv)
qed

text \<open>
  C5, as stated, asks that a tick with an enabled buyback configuration and a snapshot
  price below the trigger price collects fees whatever the decision of the tick is.
  The decision is executed first, inside the same \<open>try\<close> block: with no wallet
  configured, a confident \<open>buy\<close> makes \<open>sdk.trade\<close> throw, the tick ends in the
  \<open>catch\<close>, and \<open>sdk.collectFees\<close> is never called.
\<close>

theorem failed_trade_skips_buyback:
  "enabled sample_buyback \<and> triggerPrice sample_buyback = Some (2 / 10000) \<and>
   fst (decide_stage (sample_world reply_buy_high (Some parsed_buy_high)) sample_config
          (sample_state None (Some sample_buyback))) =
     Inr (sample_snapshot, decision_high) \<and>
   price sample_snapshot < 2 / 10000 \<and>
   SdkCall CollectFees \<notin>
     set (new_events (sample_state None (Some sample_buyback))
       (snd (analyzeAndTrade (sample_world reply_buy_high (Some parsed_buy_high))
          (sample_state None (Some sample_buyback)))))"
  by (simp add: tick_defs model_defs io_defs sample_defs reply_defs decision_defs)

text \<open>
  C5, amended. In every trading tick with an enabled buyback configuration whose
  trigger price is set, in which the steps before the buyback check (snapshot, query,
  execution of the decision) raise no error and the snapshot price is below the trigger
  price, the driver calls \<open>sdk.collectFees\<close>, whatever the decision was.
\<close>

theorem buyback_collects_fees:
  assumes "config (agent s) = Some cfg"
    and "buybackConfig (agent s) = Some bb" and "enabled bb"
    and "triggerPrice bb = Some t"
    and "fst (trade_stage w cfg s) = Inr md"
    and "price md < t"
  shows "SdkCall CollectFees \<in> set (new_events s (snd (analyzeAndTrade w s)))"
proof -
  obtain s1 where s1: "trade_stage w cfg s = (Inr md, s1)"
    using assms(5) by (cases "trade_stage w cfg s") auto
  have "steps no_buyback s (snd (trade_stage w cfg s))"
    using quiet_trade_stage by (simp add: quiet_def)
  with s1 have ag: "agent s1 = agent s" and "\<exists>evs. trace s1 = trace s @ evs"
    by (auto simp: steps_def)
  then obtain evs0 where evs0: "trace s1 = trace s @ evs0" by blast
  have "price md = 1 / 10000"
    using s1 by (rule trade_stage_result)
  with assms(6) have "t \<noteq> 0" by auto
  with checkBuyback_triggered [of s1 cfg bb t md w] assms ag
  obtain evs where evs: "trace (snd (checkBuyback w md s1)) =
      trace s1 @ ConsoleLog [S ''Buyback triggered!''] # SdkCall CollectFees # evs"
    by auto
  have bs: "buyback_stage w md s1 = checkBuyback w md s1"
    using assms(2,3) ag by (simp add: buyback_stage_def io_bind_def io_get_def)
  have "analyzeAndTrade w s =
      io_catch (io_bind (trade_stage w cfg) (buyback_stage w))
        (\<lambda>error. emit (ConsoleError ''Trading error:'' error)) s"
    using assms(1) by (simp add: analyzeAndTrade_def io_bind_def io_get_def try_stages)
  also have "\<dots> = (case checkBuyback w md s1 of
                      (Inl e, s2) \<Rightarrow> emit (ConsoleError ''Trading error:'' e) s2
                    | (Inr x, s2) \<Rightarrow> (Inr x, s2))"
    using s1 bs by (simp add: io_catch_def io_bind_def)
  finally have "\<exists>more. trace (snd (analyzeAndTrade w s)) =
      trace (snd (checkBuyback w md s1)) @ more"
    by (cases "checkBuyback w md s1")
       (auto simp: emit_def io_modify_def split: sum.splits)
  with evs evs0 show ?thesis
    by (auto simp: new_events_def)
qed

theorem buyback_collects_fees_witness:
  "fst (trade_stage (sample_world reply_prose None) sample_config
          (sample_state None (Some sample_buyback))) = Inr sample_snapshot \<and>
   price sample_snapshot < 2 / 10000 \<and>
   SdkCall CollectFees \<in>
     set (new_events (sample_state None (Some sample_buyback))
       (snd (analyzeAndTrade (sample_world reply_prose None)
          (sample_state None (Some sample_buyback)))))"
proof -
  have c: "config (agent (sample_state None (Some sample_buyback))) = Some sample_config"
    and b: "buybackConfig (agent (sample_state None (Some sample_buyback))) =
              Some sample_buyback"
    by (simp_all add: sample_state_def)
  have e: "enabled sample_buyback" and t: "triggerPrice sample_buyback = Some (2 / 10000)"
    by (simp_all add: sample_buyback_def)
  have p: "price sample_snapshot < 2 / 10000"
    by (simp add: sample_snapshot_def)
  show ?thesis
    using sample_trade_stage_prose p
      buyback_collects_fees [OF c b e t sample_trade_stage_prose p]
    by simp
qed

text \<open>
  C6. For every call of \<open>buybackAndBurn\<close> with a wallet and a controller program
  configured: the facade's \<open>trade\<close> is entered exactly once, with side \<open>buy\<close> and the
  full \<open>solAmount\<close>; exactly one transaction is sent, signed by the wallet and with no
  instruction in it, so no burn instruction is issued; if the call returns, its
  result is the signature the node gave for that transaction, and with a burn
  percentage above zero the last thing it did was to log the intended burn.
\<close>

theorem buybackAndBurn_single_buy:
  assumes "wallet (sdk s) = Some key" and "controllerProgram (sdk s) = Some c"
  shows "filter is_trade_call (new_events s (snd (buybackAndBurn w params s))) =
           [SdkCall (Trade \<lparr>tp_tokenMint = bp_tokenMint params,
                            tp_amount = JNum (solAmount params),
                            tp_side = Buy, tp_slippage = None\<rparr>)] \<and>
         filter is_send (new_events s (snd (buybackAndBurn w params s))) =
           [Rpc (SendTransaction \<lparr>instructions = [], signers = [Some key],
                                  skipPreflight = Some False\<rparr>)] \<and>
         (\<forall>sg. fst (buybackAndBurn w params s) = Inr sg \<longrightarrow>
            rpc_sendTransaction w (length (trace s) + 4)
              \<lparr>instructions = [], signers = [Some key], skipPreflight = Some False\<rparr> = Inr sg \<and>
            (0 < bp_burnPercentage params \<longrightarrow>
               last (new_events s (snd (buybackAndBurn w params s))) =
                 ConsoleLog [S ''Burning '', V (JNum (bp_burnPercentage params)),
                             S ''% of bought tokens'']))"
  unfolding buybackAndBurn_run [OF assms]
  by (simp add: Let_def new_events_def is_trade_call_def is_send_def split: sum.splits)

theorem buybackAndBurn_single_buy_witness:
  "wallet (sdk (sample_state (Some ''wallet-1'') None)) = Some ''wallet-1'' \<and>
   controllerProgram (sdk (sample_state (Some ''wallet-1'') None)) = Some ''ControllerProgram'' \<and>
   fst (buybackAndBurn (sample_world reply_prose None) sample_params
          (sample_state (Some ''wallet-1'') None)) = Inr ''sig-1'' \<and>
   filter is_trade_call
     (new_events (sample_state (Some ''wallet-1'') None)
        (snd (buybackAndBurn (sample_world reply_prose None) sample_params
                (sample_state (Some ''wallet-1'') None)))) =
     [SdkCall (Trade \<lparr>tp_tokenMint = sample_mint, tp_amount = JNum (3 / 2), tp_side = Buy,
                      tp_slippage = None\<rparr>)] \<and>
   filter is_send
     (new_events (sample_state (Some ''wallet-1'') None)
        (snd (buybackAndBurn (sample_world reply_prose None) sample_params
                (sample_state (Some ''wallet-1'') None)))) =
     [Rpc (SendTransaction \<lparr>instructions = [], signers = [Some ''wallet-1''],
                            skipPreflight = Some False\<rparr>)] \<and>
   last (new_events (sample_state (Some ''wallet-1'') None)
        (snd (buybackAndBurn (sample_world reply_prose None) sample_params
                (sample_state (Some ''wallet-1'') None)))) =
     ConsoleLog [S ''Burning '', V (JNum 50), S ''% of bought tokens'']"
proof -
  have w: "wallet (sdk (sample_state (Some ''wallet-1'') None)) = Some ''wallet-1''"
    and c: "controllerProgram (sdk (sample_state (Some ''wallet-1'') None)) =
              Some ''ControllerProgram''"
    by (simp_all add: sample_state_def)
  have r: "fst (buybackAndBurn (sample_world reply_prose None) sample_params
          (sample_state (Some ''wallet-1'') None)) = Inr ''sig-1''"
    by (simp add: buybackAndBurn_def trade_def Let_def io_defs sample_defs sample_params_def)
  show ?thesis
    using w c r
      buybackAndBurn_single_buy [OF w c, of "sample_world reply_prose None" sample_params]
    by (simp add: sample_params_def)
qed

text \<open>
  C8. A tick of either driver always returns normally, leaves the driver's own fields
  and the timers as they were, and when the statements inside its \<open>try\<close> raise an
  error, the tick is what those statements did followed by one \<open>console.error\<close> line
  carrying that error.
\<close>

theorem ticks_never_rethrow:
  "fst (analyzeAndTrade w s) = Inr () \<and>
   agent (snd (analyzeAndTrade w s)) = agent s \<and>
   timers (snd (analyzeAndTrade w s)) = timers s \<and>
   (config (agent s) = Some cfg \<and> analyzeAndTrade_try w cfg s = (Inl e, s1) \<longrightarrow>
      analyzeAndTrade w s =
        (Inr (), s1\<lparr>trace := trace s1 @ [ConsoleError ''Trading error:'' e]\<rparr>)) \<and>
   fst (analyzeAndAllocate w s) = Inr () \<and>
   marketing (snd (analyzeAndAllocate w s)) = marketing s \<and>
   timers (snd (analyzeAndAllocate w s)) = timers s \<and>
   (mk_config (marketing s) = Some mcfg \<and> analyzeAndAllocate_try w mcfg s = (Inl e', s2) \<longrightarrow>
      analyzeAndAllocate w s =
        (Inr (), s2\<lparr>trace := trace s2 @ [ConsoleError ''Marketing error:'' e']\<rparr>))"
proof -
  have t: "steps no_buyback s (snd (analyzeAndTrade w s))"
    using quiet_analyzeAndTrade by (simp add: quiet_def)
  have m: "steps no_exec s (snd (analyzeAndAllocate w s))"
    using quiet_analyzeAndAllocate by (simp add: quiet_def)
  have t2: "analyzeAndTrade w s =
        (Inr (), s1\<lparr>trace := trace s1 @ [ConsoleError ''Trading error:'' e]\<rparr>)"
    if "config (agent s) = Some cfg" and "analyzeAndTrade_try w cfg s = (Inl e, s1)"
    using that catch_log_returns [of "analyzeAndTrade_try w cfg" "''Trading error:''" s e s1]
    by (simp add: analyzeAndTrade_def io_bind_def io_get_def)
  have m2: "analyzeAndAllocate w s =
        (Inr (), s2\<lparr>trace := trace s2 @ [ConsoleError ''Marketing error:'' e']\<rparr>)"
    if "mk_config (marketing s) = Some mcfg"
      and "analyzeAndAllocate_try w mcfg s = (Inl e', s2)"
    using that
      catch_log_returns [of "analyzeAndAllocate_try w mcfg" "''Marketing error:''" s e' s2]
    by (simp add: analyzeAndAllocate_def io_bind_def io_get_def)
  show ?thesis
    using t m t2 m2 analyzeAndTrade_returns [of w s] analyzeAndAllocate_returns [of w s]
    by (simp add: steps_def)
qed

theorem ticks_never_rethrow_witness:
  "config (agent failing_state) = Some bad_config \<and>
   analyzeAndTrade_try (sample_world reply_prose None) bad_config failing_state =
     (Inl (Rejected ''Invalid public key input''), failing_state) \<and>
   analyzeAndTrade (sample_world reply_prose None) failing_state =
     (Inr (), failing_state\<lparr>trace :=
        [ConsoleError ''Trading error:'' (Rejected ''Invalid public key input'')]\<rparr>) \<and>
   mk_config (marketing failing_state) = Some sample_marketing_config \<and>
   analyzeAndAllocate_try (sample_world reply_prose None) sample_marketing_config
       failing_state =
     (Inl TypeError, failing_state\<lparr>trace := [Fetch metrics_request]\<rparr>) \<and>
   analyzeAndAllocate (sample_world reply_prose None) failing_state =
     (Inr (), failing_state\<lparr>trace :=
        [Fetch metrics_request, ConsoleError ''Marketing error:'' TypeError]\<rparr>)"
proof -
  have c: "config (agent failing_state) = Some bad_config"
    and m: "mk_config (marketing failing_state) = Some sample_marketing_config"
    by (simp_all add: failing_state_def)
  have t: "analyzeAndTrade_try (sample_world reply_prose None) bad_config failing_state =
     (Inl (Rejected ''Invalid public key input''), failing_state)"
    by (simp add: analyzeAndTrade_try_def getMarketData_def PublicKey_new_def io_defs
          sample_defs bad_config_def)
  have a: "analyzeAndAllocate_try (sample_world reply_prose None) sample_marketing_config
       failing_state =
     (Inl TypeError, failing_state\<lparr>trace := [Fetch metrics_request]\<rparr>)"
    by (simp add: analyzeAndAllocate_try_def fetchPlatformMetrics_def calculateMetrics_def
          io_defs sample_defs failing_state_def metrics_request_def reply_defs)
  have tr: "trace failing_state = []"
    by (simp add: failing_state_def sample_state_def)
  show ?thesis
    using c m t a tr
      ticks_never_rethrow [of "sample_world reply_prose None" failing_state bad_config
        "Rejected ''Invalid public key input''" failing_state sample_marketing_config
        TypeError "failing_state\<lparr>trace := [Fetch metrics_request]\<rparr>"]
    by simp
qed

text \<open>
  C9. Whenever \<open>collectFees\<close> returns, it returns 0; and neither \<open>checkBuyback\<close>, for
  any snapshot and any configuration, nor a whole tick ever enters
  \<open>sdk.buybackAndBurn\<close>.
\<close>

theorem collectFees_zero_never_buyback:
  "(collectFees w s = (Inr x, s') \<longrightarrow> x = 0) \<and>
   (\<forall>e \<in> set (new_events s (snd (checkBuyback w md s))). \<not> is_buyback_call e) \<and>
   (\<forall>e \<in> set (new_events s (snd (analyzeAndTrade w s))). \<not> is_buyback_call e)"
proof -
  have "steps no_buyback s (snd (checkBuyback w md s))"
    using quiet_mono [OF no_exec_no_buyback quiet_checkBuyback] by (simp add: quiet_def)
  then have 1: "list_all no_buyback (new_events s (snd (checkBuyback w md s)))"
    by (rule steps_new_events)
  have "steps no_buyback s (snd (analyzeAndTrade w s))"
    using quiet_analyzeAndTrade by (simp add: quiet_def)
  then have 2: "list_all no_buyback (new_events s (snd (analyzeAndTrade w s)))"
    by (rule steps_new_events)
  show ?thesis
    using 1 2 collectFees_zero [of w s x s'] by (simp add: list_all_iff no_buyback_def)
qed

theorem collectFees_zero_never_buyback_witness:
  "collectFees (sample_world reply_prose None) (sample_state None (Some sample_buyback)) =
     (Inr 0, (sample_state None (Some sample_buyback))\<lparr>trace :=
        [SdkCall CollectFees, ConsoleLog [S ''Collecting fees...''],
         Rpc (SendTransaction \<lparr>instructions = [], signers = [None], skipPreflight = None\<rparr>),
         Rpc (ConfirmTransaction ''sig-1'')]\<rparr>) \<and>
   SdkCall CollectFees \<in>
     set (new_events (sample_state None (Some sample_buyback))
       (snd (checkBuyback (sample_world reply_prose None) sample_snapshot
          (sample_state None (Some sample_buyback))))) \<and>
   filter is_buyback_call
     (new_events (sample_state None (Some sample_buyback))
       (snd (checkBuyback (sample_world reply_prose None) sample_snapshot
          (sample_state None (Some sample_buyback))))) = [] \<and>
   filter is_buyback_call
     (new_events (sample_state None (Some sample_buyback))
       (snd (analyzeAndTrade (sample_world reply_prose None)
          (sample_state None (Some sample_buyback))))) = []"
proof -
  have f: "collectFees (sample_world reply_prose None)
      (sample_state None (Some sample_buyback)) =
     (Inr 0, (sample_state None (Some sample_buyback))\<lparr>trace :=
        [SdkCall CollectFees, ConsoleLog [S ''Collecting fees...''],
         Rpc (SendTransaction \<lparr>instructions = [], signers = [None], skipPreflight = None\<rparr>),
         Rpc (ConfirmTransaction ''sig-1'')]\<rparr>)"
    by (simp add: collectFees_def Let_def io_defs sample_defs)
  have g: "SdkCall CollectFees \<in>
     set (new_events (sample_state None (Some sample_buyback))
       (snd (checkBuyback (sample_world reply_prose None) sample_snapshot
          (sample_state None (Some sample_buyback)))))"
    by (simp add: checkBuyback_def collectFees_def new_events_def Let_def io_defs sample_defs)
  show ?thesis
    using f g
      collectFees_zero_never_buyback [of "sample_world reply_prose None"
        "sample_state None (Some sample_buyback)" 0
        "(sample_state None (Some sample_buyback))\<lparr>trace :=
        [SdkCall CollectFees, ConsoleLog [S ''Collecting fees...''],
         Rpc (SendTransaction \<lparr>instructions = [], signers = [None], skipPreflight = None\<rparr>),
         Rpc (ConfirmTransaction ''sig-1'')]\<rparr>" sample_snapshot]
    by (simp add: filter_empty_conv)
qed

text \<open>
  C10. In every tick whose decision has the action \<open>buy\<close>, \<open>sell\<close>, \<open>burn\<close> or
  \<open>add_lp\<close> and no amount, \<open>executeDecision\<close> returns normally and leaves the state
  exactly as it found it (no call, no event); when the confidence is above 0.7, the
  tick therefore reaches the buyback check in the state in which the decision was
  logged.
\<close>

theorem amountless_decision_is_noop:
  assumes "config (agent s) = Some cfg"
    and "fst (decide_stage w cfg s) = Inr (md, d)"
    and "action d \<in> {JStr ''buy'', JStr ''sell'', JStr ''burn'', JStr ''add_lp''}"
    and "amount d = JUndefined"
  shows "executeDecision w d (snd (decide_stage w cfg s)) =
           (Inr (), snd (decide_stage w cfg s)) \<and>
         (js_gt w (confidence d) (7 / 10) \<longrightarrow>
            trade_stage w cfg s = (Inr md, snd (decide_stage w cfg s)))"
proof -
  obtain s' where s': "decide_stage w cfg s = (Inr (md, d), s')"
    using assms(2) by (cases "decide_stage w cfg s") auto
  have valid: "PublicKey_valid w (tokenMint cfg)"
    using decide_stage_result [OF s'] by simp
  have "steps no_exec s (snd (decide_stage w cfg s))"
    using quiet_decide_stage by (simp add: quiet_def)
  then have "agent s' = agent s"
    using s' by (simp add: steps_def)
  then have "config (agent s') = Some cfg"
    using assms(1) by simp
  then have ex: "executeDecision w d s' = (Inr (), s')"
    using valid assms(3,4) by (intro executeDecision_no_amount) auto
  then show ?thesis
    using s'
    by (simp add: trade_stage_def io_bind_def io_then_def io_return_def)
qed

theorem amountless_decision_is_noop_witness:
  "fst (decide_stage (sample_world reply_buy_bare (Some parsed_buy_bare)) sample_config
          (sample_state (Some ''wallet-1'') None)) = Inr (sample_snapshot, decision_bare) \<and>
   action decision_bare = JStr ''buy'' \<and> amount decision_bare = JUndefined \<and>
   js_gt (sample_world reply_buy_bare (Some parsed_buy_bare)) (confidence decision_bare)
     (7 / 10) \<and>
   executeDecision (sample_world reply_buy_bare (Some parsed_buy_bare)) decision_bare
     (snd (decide_stage (sample_world reply_buy_bare (Some parsed_buy_bare)) sample_config
             (sample_state (Some ''wallet-1'') None))) =
     (Inr (), snd (decide_stage (sample_world reply_buy_bare (Some parsed_buy_bare))
                     sample_config (sample_state (Some ''wallet-1'') None))) \<and>
   trade_stage (sample_world reply_buy_bare (Some parsed_buy_bare)) sample_config
       (sample_state (Some ''wallet-1'') None) =
     (Inr sample_snapshot,
      snd (decide_stage (sample_world reply_buy_bare (Some parsed_buy_bare)) sample_config
             (sample_state (Some ''wallet-1'') None)))"
proof -
  have c: "config (agent (sample_state (Some ''wallet-1'') None)) = Some sample_config"
    by (simp add: sample_state_def)
  have a: "action decision_bare \<in> {JStr ''buy'', JStr ''sell'', JStr ''burn'', JStr ''add_lp''}"
    and a': "action decision_bare = JStr ''buy''"
    and m: "amount decision_bare = JUndefined"
    by (simp_all add: decision_bare_def)
  have g: "js_gt (sample_world reply_buy_bare (Some parsed_buy_bare))
             (confidence decision_bare) (7 / 10)"
    by (simp add: js_gt_def ToNumber_def decision_bare_def)
  show ?thesis
    using sample_decide_bare a' m g amountless_decision_is_noop [OF c sample_decide_bare a m]
    by simp
qed

end
